theory Spec2Isabelle
  imports Complex_Main "HOL-Library.AList" "HOL-Library.Sublist"
begin

section \<open>Python library primitives used by heap\_monitor.py\<close>

text \<open>
  Strings are Python \<open>str\<close> values restricted to the code points of \<^typ>\<open>char\<close>; every
  character the program itself tests for (\<open>_\<close>, \<open>.\<close>, \<open>/\<close>, the digits, the letters of the
  three extensions) is ASCII.  The functions of this section are not code of the repository:
  they follow CPython's \<open>str\<close>, \<open>posixpath\<close>, \<open>genericpath\<close>, \<open>re\<close> and \<open>_strptime\<close>.
\<close>

subsection \<open>str methods\<close>

definition lower_char :: "char \<Rightarrow> char" where
  "lower_char c =
     (case map_of (zip ''ABCDEFGHIJKLMNOPQRSTUVWXYZ'' ''abcdefghijklmnopqrstuvwxyz'') c of
        Some d \<Rightarrow> d
      | None \<Rightarrow> c)"

definition lower :: "string \<Rightarrow> string" where
  "lower s = map lower_char s"

definition endswith :: "string \<Rightarrow> string \<Rightarrow> bool" where
  "endswith s suf = (length suf \<le> length s \<and> drop (length s - length suf) s = suf)"

definition startswith :: "string \<Rightarrow> string \<Rightarrow> bool" where
  "startswith s pre = (take (length pre) s = pre)"

text \<open>\<open>s.rfind(c)\<close>: the highest index of \<open>c\<close> in \<open>s\<close>, or \<open>-1\<close>.\<close>

definition rfind :: "string \<Rightarrow> char \<Rightarrow> int" where
  "rfind s c =
     (if c \<in> set s
      then int (length s) - 1 - int (length (takeWhile (\<lambda>x. x \<noteq> c) (rev s)))
      else - 1)"

definition rstrip :: "string \<Rightarrow> char \<Rightarrow> string" where
  "rstrip s c = rev (dropWhile (\<lambda>x. x = c) (rev s))"

subsection \<open>os.path (posixpath)\<close>

definition basename :: "string \<Rightarrow> string" where
  "basename p = (let i = nat (rfind p CHR ''/'' + 1) in drop i p)"

definition dirname :: "string \<Rightarrow> string" where
  "dirname p =
     (let i = nat (rfind p CHR ''/'' + 1);
          head = take i p
      in if head \<noteq> [] \<and> head \<noteq> replicate (length head) CHR ''/''
         then rstrip head CHR ''/''
         else head)"

text \<open>
  The loop of \<open>genericpath._splitext\<close> that skips leading dots: it answers whether some
  character in \<open>p[filenameIndex:dotIndex]\<close> is not a dot.
\<close>

function skip_leading_dots :: "string \<Rightarrow> nat \<Rightarrow> nat \<Rightarrow> bool" where
  "skip_leading_dots p filenameIndex dotIndex =
     (if filenameIndex < dotIndex
      then (if take 1 (drop filenameIndex p) \<noteq> ''.'' then True
            else skip_leading_dots p (Suc filenameIndex) dotIndex)
      else False)"
  by pat_completeness auto
termination
  by (relation "measure (\<lambda>(p, filenameIndex, dotIndex). dotIndex - filenameIndex)") auto

declare skip_leading_dots.simps [simp del]

definition splitext :: "string \<Rightarrow> string \<times> string" where
  "splitext p =
     (let sepIndex = rfind p CHR ''/'';
          dotIndex = rfind p CHR ''.''
      in if dotIndex > sepIndex \<and> skip_leading_dots p (nat (sepIndex + 1)) (nat dotIndex)
         then (take (nat dotIndex) p, drop (nat dotIndex) p)
         else (p, []))"

definition join :: "string \<Rightarrow> string \<Rightarrow> string" where
  "join a b =
     (if startswith b ''/'' then b
      else if a = [] \<or> endswith a ''/'' then a @ b
      else a @ ''/'' @ b)"

subsection \<open>re.match on the patterns the program uses\<close>

text \<open>
  A backtracking matcher for the fragment of Python's regular expressions that occurs in
  the program and in \<open>_strptime\<close>: a pattern is a sequence of elements, an element is a
  single-character atom under a greedy quantifier (optionally a capturing group), or a
  capturing group of alternatives tried from left to right.  \<open>re.match\<close> anchors the match
  at the start of the string and not at its end, so a leading \<open>^\<close> adds nothing.  \<open>Dot\<close>
  is \<open>.\<close> without \<open>re.DOTALL\<close>: any character but the newline.
\<close>

datatype atom = Dot | Lit char | NotLit char | OneOf string

datatype quant = ExactlyOne | ZeroOrMore | OneOrMore

datatype elem = Rep atom quant bool | Alt "atom list list"

fun atom_ok :: "atom \<Rightarrow> char \<Rightarrow> bool" where
  "atom_ok Dot c = (c \<noteq> CHR 0x0A)"
| "atom_ok (Lit x) c = (c = x)"
| "atom_ok (NotLit x) c = (c \<noteq> x)"
| "atom_ok (OneOf xs) c = (c \<in> set xs)"

fun first_some :: "('a \<Rightarrow> 'b option) \<Rightarrow> 'a list \<Rightarrow> 'b option" where
  "first_some f [] = None"
| "first_some f (x # xs) = (case f x of Some y \<Rightarrow> Some y | None \<Rightarrow> first_some f xs)"

fun capture :: "bool \<Rightarrow> string \<Rightarrow> string list \<Rightarrow> string list" where
  "capture True g gs = g # gs"
| "capture False g gs = gs"

fun min_count :: "quant \<Rightarrow> nat" where
  "min_count ExactlyOne = 1"
| "min_count ZeroOrMore = 0"
| "min_count OneOrMore = 1"

fun max_count :: "quant \<Rightarrow> atom \<Rightarrow> string \<Rightarrow> nat" where
  "max_count ExactlyOne a s = min 1 (length (takeWhile (atom_ok a) s))"
| "max_count ZeroOrMore a s = length (takeWhile (atom_ok a) s)"
| "max_count OneOrMore a s = length (takeWhile (atom_ok a) s)"

fun fits :: "atom list \<Rightarrow> string \<Rightarrow> bool" where
  "fits [] s = True"
| "fits (a # as) [] = False"
| "fits (a # as) (c # cs) = (atom_ok a c \<and> fits as cs)"

text \<open>
  The result is the list of captured groups and the unmatched rest of the string.  A greedy
  quantifier tries the longest run first and gives characters back one at a time.
\<close>

fun re_match :: "elem list \<Rightarrow> string \<Rightarrow> (string list \<times> string) option" where
  "re_match [] s = Some ([], s)"
| "re_match (Rep a q g # ps) s =
     first_some
       (\<lambda>k. map_option (\<lambda>(gs, rest). (capture g (take k s) gs, rest)) (re_match ps (drop k s)))
       (rev [min_count q ..< Suc (max_count q a s)])"
| "re_match (Alt alts # ps) s =
     first_some
       (\<lambda>alt. if fits alt s
              then map_option (\<lambda>(gs, rest). (take (length alt) s # gs, rest))
                     (re_match ps (drop (length alt) s))
              else None)
       alts"

subsection \<open>datetime\<close>

text \<open>
  \<open>datetime.datetime\<close> is a subclass of \<open>datetime.date\<close>; the values are naive local
  times.  \<open>datetime.now()\<close> is an input of the model.
\<close>

record date =
  year :: nat
  month :: nat
  day :: nat

record datetime = date +
  hour :: nat
  minute :: nat
  second :: nat
  microsecond :: nat

definition digit_char :: "nat \<Rightarrow> char" where
  "digit_char n = ''0123456789'' ! (n mod 10)"

function show_nat :: "nat \<Rightarrow> string" where
  "show_nat n = (if n < 10 then [digit_char n] else show_nat (n div 10) @ [digit_char n])"
  by pat_completeness auto
termination
  by (relation "measure (\<lambda>n. n)") auto

declare show_nat.simps [simp del]

text \<open>\<open>%m\<close>, \<open>%d\<close>, \<open>%H\<close>, \<open>%M\<close>, \<open>%S\<close>: two digits, zero-padded.\<close>

definition pad2 :: "nat \<Rightarrow> string" where
  "pad2 n = (if n < 10 then CHR ''0'' # show_nat n else show_nat n)"

text \<open>
  \<open>strftime('%Y%m%d_%H%M%S')\<close>.  \<open>%Y\<close> is the year in decimal; every year that
  \<open>datetime.now()\<close> returns has four digits.
\<close>

definition strftime_Ymd_HMS :: "datetime \<Rightarrow> string" where
  "strftime_Ymd_HMS t =
     show_nat (year t) @ pad2 (month t) @ pad2 (day t) @ ''_'' @
     pad2 (hour t) @ pad2 (minute t) @ pad2 (second t)"

definition is_leap :: "nat \<Rightarrow> bool" where
  "is_leap y = (y mod 4 = 0 \<and> (y mod 100 \<noteq> 0 \<or> y mod 400 = 0))"

definition days_in_month :: "nat \<Rightarrow> nat \<Rightarrow> nat" where
  "days_in_month y m =
     (if m = 2 then (if is_leap y then 29 else 28)
      else if m \<in> {4, 6, 9, 11} then 30 else 31)"

text \<open>The range checks of the \<open>datetime.date\<close> constructor (it raises \<open>ValueError\<close>).\<close>

definition valid_date :: "nat \<Rightarrow> nat \<Rightarrow> nat \<Rightarrow> bool" where
  "valid_date y m d =
     (1 \<le> y \<and> y \<le> 9999 \<and> 1 \<le> m \<and> m \<le> 12 \<and> 1 \<le> d \<and> d \<le> days_in_month y m)"

definition digit :: atom where
  "digit = OneOf ''0123456789''"

definition nonzero :: atom where
  "nonzero = OneOf ''123456789''"

text \<open>
  The regular expression \<open>_strptime\<close> compiles for the format \<open>%Y-%m-%d\<close>:
  \<open>(?P<Y>\d\d\d\d)-(?P<m>1[0-2]|0[1-9]|[1-9])-(?P<d>3[0-1]|[1-2]\d|0[1-9]|[1-9]| [1-9])\<close>.
\<close>

definition format_regex :: "elem list" where
  "format_regex =
     [Alt [[digit, digit, digit, digit]],
      Rep (Lit CHR ''-'') ExactlyOne False,
      Alt [[Lit CHR ''1'', OneOf ''012''], [Lit CHR ''0'', nonzero], [nonzero]],
      Rep (Lit CHR ''-'') ExactlyOne False,
      Alt [[Lit CHR ''3'', OneOf ''01''], [OneOf ''12'', digit], [Lit CHR ''0'', nonzero],
           [nonzero], [Lit CHR '' '', nonzero]]]"

definition digit_val :: "char \<Rightarrow> nat" where
  "digit_val c = (case map_of (zip ''0123456789'' [0, 1, 2, 3, 4, 5, 6, 7, 8, 9]) c of Some v \<Rightarrow> v | None \<Rightarrow> 0)"

text \<open>\<open>int(s)\<close> on a captured group: decimal digits, possibly after a blank.\<close>

definition int_of_str :: "string \<Rightarrow> nat" where
  "int_of_str s = foldl (\<lambda>acc c. 10 * acc + digit_val c) 0 (filter (\<lambda>c. c \<noteq> CHR '' '') s)"

text \<open>
  \<open>datetime.strptime(date_str, '%Y-%m-%d').date()\<close>; \<open>None\<close> stands for \<open>ValueError\<close>,
  which is raised when the expression does not match, when unconverted data remains, and
  when the numbers are not a date.
\<close>

definition strptime_Ymd :: "string \<Rightarrow> date option" where
  "strptime_Ymd data_string =
     (case re_match format_regex data_string of
        None \<Rightarrow> None
      | Some (groups, rest) \<Rightarrow>
          if rest \<noteq> [] then None
          else (case groups of
                  [Y, m, d] \<Rightarrow>
                    if valid_date (int_of_str Y) (int_of_str m) (int_of_str d)
                    then Some \<lparr>year = int_of_str Y, month = int_of_str m, day = int_of_str d\<rparr>
                    else None
                | _ \<Rightarrow> None))"

section \<open>heap\_monitor.py\<close>

subsection \<open>Results and log records\<close>

text \<open>
  The dictionary that \<open>process_heap_dump\<close> returns.  Its consumer reads \<open>status\<close> by
  subscript and the other keys with \<open>dict.get\<close>, so an absent key and a key bound to
  \<open>None\<close> are both \<open>None\<close> here.  Times are Python floats (\<open>time.time()\<close> differences);
  they are inputs of the model and are never computed with, except for the constant 3600.
\<close>

record result =
  res_status :: string
  res_suspects_report :: "string option"
  res_overview_report :: "string option"
  res_error_message :: "string option"
  res_processing_time :: "real option"

datatype level = INFO | WARNING | ERROR

text \<open>
  A log message is the text of its f-string; \<open>Float2f x\<close> stands for a float formatted
  with \<open>:.2f\<close>.
\<close>

datatype log_part = Str string | Float2f real

type_synonym log_record = "level \<times> log_part list"

fun str_join :: "string \<Rightarrow> string list \<Rightarrow> string" where
  "str_join sep [] = []"
| "str_join sep [x] = x"
| "str_join sep (x # y # ys) = x @ sep @ str_join sep (y # ys)"

subsection \<open>HeapDumpProcessor.process\_heap\_dump\<close>

text \<open>
  What \<open>subprocess.run\<close> does is an input: it returns a return code and the captured
  standard error, or raises \<open>TimeoutExpired\<close>, or raises something else; with it comes the
  elapsed time that the function then measures.  \<open>files\<close> lists the paths for which
  \<open>os.path.exists\<close> holds when the function looks.  Every exception is caught inside the
  function, so it always returns a dictionary; the second component is what it logs.
\<close>

datatype run_outcome =
    CompletedProcess int string real
  | TimeoutExpired
  | OtherError string real

definition process_heap_dump ::
  "string \<Rightarrow> string \<Rightarrow> string \<Rightarrow> run_outcome \<Rightarrow> string list \<Rightarrow> result \<times> log_record list" where
  "process_heap_dump docker_image file_path memory_limit outcome files =
     (let file_dir = dirname file_path;
          filename = basename file_path;
          cmd = [''docker'', ''run'', ''--rm'',
                 ''--mount'', ''src='' @ file_dir @ '',target=/data,type=bind'',
                 docker_image, filename, memory_limit, ''suspects,overview''];
          running = (INFO, [Str (''Running Auto-MAT for '' @ filename @ '': '' @ str_join '' '' cmd)])
      in case outcome of
           CompletedProcess returncode stderr processing_time \<Rightarrow>
             if returncode = 0
             then (let base_name = fst (splitext filename);
                       suspects_path = join file_dir (base_name @ ''_Leak_Suspects.html'');
                       overview_path = join file_dir (base_name @ ''_System_Overview.html'')
                   in (\<lparr>res_status = ''completed'',
                        res_suspects_report =
                          (if suspects_path \<in> set files then Some suspects_path else None),
                        res_overview_report =
                          (if overview_path \<in> set files then Some overview_path else None),
                        res_error_message = None,
                        res_processing_time = Some processing_time\<rparr>,
                       [running]))
             else (\<lparr>res_status = ''failed'',
                    res_suspects_report = None,
                    res_overview_report = None,
                    res_error_message = Some stderr,
                    res_processing_time = Some processing_time\<rparr>,
                   [running,
                    (ERROR, [Str (''Auto-MAT failed for '' @ filename @ '': '' @ stderr)])])
         | TimeoutExpired \<Rightarrow>
             (\<lparr>res_status = ''failed'',
               res_suspects_report = None,
               res_overview_report = None,
               res_error_message = Some ''Processing timeout (1 hour exceeded)'',
               res_processing_time = Some 3600\<rparr>,
              [running, (ERROR, [Str (''Processing timeout for '' @ filename)])])
         | OtherError e elapsed \<Rightarrow>
             (\<lparr>res_status = ''failed'',
               res_suspects_report = None,
               res_overview_report = None,
               res_error_message = Some e,
               res_processing_time = Some elapsed\<rparr>,
              [running, (ERROR, [Str (''Error processing '' @ filename @ '': '' @ e)])]))"

subsection \<open>HeapDumpHandler.\_extract\_machine\_name\<close>

text \<open>
  The three patterns, in the order of the source:
  \<open>^([^_]+)_.*\<close>, \<open>.*_([^_]+)_.*\<close> and \<open>^([^.]+)\..*\<close>.
\<close>

definition patterns :: "elem list list" where
  "patterns =
     [[Rep (NotLit CHR ''_'') OneOrMore True, Rep (Lit CHR ''_'') ExactlyOne False,
       Rep Dot ZeroOrMore False],
      [Rep Dot ZeroOrMore False, Rep (Lit CHR ''_'') ExactlyOne False,
       Rep (NotLit CHR ''_'') OneOrMore True, Rep (Lit CHR ''_'') ExactlyOne False,
       Rep Dot ZeroOrMore False],
      [Rep (NotLit CHR ''.'') OneOrMore True, Rep (Lit CHR ''.'') ExactlyOne False,
       Rep Dot ZeroOrMore False]]"

text \<open>
  The loop returns \<open>match.group(1)\<close> of the first pattern that matches, and
  \<open>os.path.splitext(filename)[0]\<close> when none does.  Each pattern has one group, so the
  list of groups of a match is never empty.
\<close>

definition extract_machine_name :: "string \<Rightarrow> string" where
  "extract_machine_name filename =
     (case first_some (\<lambda>pattern. re_match pattern filename) patterns of
        Some (groups, rest) \<Rightarrow> hd groups
      | None \<Rightarrow> fst (splitext filename))"

subsection \<open>HeapDumpReport\<close>

record HeapDumpReport =
  machine_name :: string
  timestamp :: datetime
  filename :: string
  file_path :: string
  status :: string
  suspects_report :: "string option"
  overview_report :: "string option"
  error_message :: "string option"
  processing_time :: "real option"

subsection \<open>The shared state\<close>

text \<open>
  Reports are objects: the handler, the background thread and the dictionary of the
  \<open>ReportManager\<close> hold references to the same \<open>HeapDumpReport\<close>.  The heap is the
  list of all report objects ever allocated and a reference is an index into it.
  \<open>reports\<close> is the dictionary (keys in insertion order, a rebound key keeps its place).
  A background thread holds the reference of its report and is either inside
  \<open>process_heap_dump\<close> or has the statements of \<open>_background_process\<close> that it still has
  to execute.
\<close>

datatype stmt =
    SetStatus string
  | SetSuspects "string option"
  | SetOverview "string option"
  | SetError "string option"
  | SetTime "real option"
  | UpdateReport
  | Log log_record

datatype thread_state = Analyzing | Writing "stmt list"

record world =
  docker_image :: string
  heap :: "HeapDumpReport list"
  reports :: "(string \<times> nat) list"
  logged :: "log_record list"
  threads :: "(nat \<times> thread_state) list"

definition init :: "string \<Rightarrow> world" where
  "init img = \<lparr>docker_image = img, heap = [], reports = [], logged = [], threads = []\<rparr>"

subsection \<open>ReportManager\<close>

text \<open>Each method body runs under \<open>self.lock\<close>: it is one atomic step.\<close>

definition report_id :: "HeapDumpReport \<Rightarrow> string" where
  "report_id report = machine_name report @ ''_'' @ strftime_Ymd_HMS (timestamp report)"

definition add_report :: "nat \<Rightarrow> world \<Rightarrow> world" where
  "add_report ref w =
     w\<lparr>reports := AList.update (report_id (heap w ! ref)) ref (reports w)\<rparr>"

definition update_report :: "nat \<Rightarrow> world \<Rightarrow> world" where
  "update_report ref w =
     (let rid = report_id (heap w ! ref)
      in if rid \<in> set (map fst (reports w))
         then w\<lparr>reports := AList.update rid ref (reports w)\<rparr>
         else w)"

definition get_reports_by_machine :: "string \<Rightarrow> world \<Rightarrow> nat list" where
  "get_reports_by_machine name w =
     filter (\<lambda>ref. machine_name (heap w ! ref) = name) (map snd (reports w))"

definition get_reports_by_date :: "string \<Rightarrow> world \<Rightarrow> nat list" where
  "get_reports_by_date date_str w =
     (case strptime_Ymd date_str of
        Some target_date \<Rightarrow>
          filter (\<lambda>ref. date.truncate (timestamp (heap w ! ref)) = target_date)
            (map snd (reports w))
      | None \<Rightarrow> [])"

definition get_all_reports :: "world \<Rightarrow> nat list" where
  "get_all_reports w = map snd (reports w)"

definition get_report_by_id :: "string \<Rightarrow> world \<Rightarrow> nat option" where
  "get_report_by_id rid w = map_of (reports w) rid"

text \<open>What a caller sees when it reads the fields of the reports it was handed.\<close>

definition deref :: "world \<Rightarrow> nat \<Rightarrow> HeapDumpReport" where
  "deref w ref = heap w ! ref"

subsection \<open>HeapDumpHandler\<close>

record event =
  is_directory :: bool
  src_path :: string

definition heap_dump_extensions :: "string list" where
  "heap_dump_extensions = [''.hprof'', ''.dump'', ''.bin'']"

definition log_to :: "log_record \<Rightarrow> world \<Rightarrow> world" where
  "log_to l w = w\<lparr>logged := logged w @ [l]\<rparr>"

text \<open>
  \<open>_process_heap_dump\<close>: allocate the report, add it to the manager, log, start the
  thread.  \<open>now\<close> is the value of \<open>datetime.now()\<close>.  No statement of its \<open>try\<close> block
  can raise on a string path, so its handler is never entered.  In \<open>on_created\<close> the
  settle delay \<open>time.sleep(2)\<close> takes time and changes no state.
\<close>

definition handler_process_heap_dump :: "string \<Rightarrow> datetime \<Rightarrow> world \<Rightarrow> world" where
  "handler_process_heap_dump path now w =
     (let fname = basename path;
          report = \<lparr>machine_name = extract_machine_name fname,
                    timestamp = now,
                    filename = fname,
                    file_path = path,
                    status = ''processing'',
                    suspects_report = None,
                    overview_report = None,
                    error_message = None,
                    processing_time = None\<rparr>;
          ref = length (heap w);
          w1 = add_report ref (w\<lparr>heap := heap w @ [report]\<rparr>);
          w2 = log_to (INFO, [Str (''Started processing heap dump: '' @ fname)]) w1
      in w2\<lparr>threads := threads w2 @ [(ref, Analyzing)]\<rparr>)"

definition on_created :: "event \<Rightarrow> datetime \<Rightarrow> world \<Rightarrow> world" where
  "on_created ev now w =
     (if is_directory ev then w
      else if list_ex (\<lambda>ext. endswith (lower (src_path ev)) ext) heap_dump_extensions
           then handler_process_heap_dump (src_path ev) now w
           else w)"

text \<open>
  The statements of \<open>_background_process\<close> after the call of \<open>process_heap_dump\<close>, for the
  dictionary it returned.  None of them can raise, so the handler of the outer \<open>try\<close> is
  never entered.
\<close>

definition background_body :: "result \<Rightarrow> string \<Rightarrow> stmt list" where
  "background_body res fname =
     [SetStatus (res_status res),
      SetSuspects (res_suspects_report res),
      SetOverview (res_overview_report res),
      SetError (res_error_message res),
      SetTime (res_processing_time res),
      UpdateReport,
      Log (if res_status res = ''completed''
           then (INFO, [Str (''Successfully processed '' @ fname @ '' in ''),
                        Float2f (case res_processing_time res of Some t \<Rightarrow> t | None \<Rightarrow> 0),
                        Str ''s''])
           else (ERROR, [Str (''Failed to process '' @ fname @ '': '' @
                   (case res_error_message res of Some m \<Rightarrow> m | None \<Rightarrow> ''Unknown error''))]))]"

fun exec_stmt :: "nat \<Rightarrow> stmt \<Rightarrow> world \<Rightarrow> world" where
  "exec_stmt ref (SetStatus s) w = w\<lparr>heap := (heap w)[ref := (heap w ! ref)\<lparr>status := s\<rparr>]\<rparr>"
| "exec_stmt ref (SetSuspects x) w =
     w\<lparr>heap := (heap w)[ref := (heap w ! ref)\<lparr>suspects_report := x\<rparr>]\<rparr>"
| "exec_stmt ref (SetOverview x) w =
     w\<lparr>heap := (heap w)[ref := (heap w ! ref)\<lparr>overview_report := x\<rparr>]\<rparr>"
| "exec_stmt ref (SetError x) w =
     w\<lparr>heap := (heap w)[ref := (heap w ! ref)\<lparr>error_message := x\<rparr>]\<rparr>"
| "exec_stmt ref (SetTime x) w =
     w\<lparr>heap := (heap w)[ref := (heap w ! ref)\<lparr>processing_time := x\<rparr>]\<rparr>"
| "exec_stmt ref UpdateReport w = update_report ref w"
| "exec_stmt ref (Log l) w = log_to l w"

text \<open>The default of the parameter \<open>memory_limit\<close>, which the caller does not pass.\<close>

definition memory_limit :: string where
  "memory_limit = ''11g''"

text \<open>
  One scheduling step of background thread \<open>i\<close>: the call of \<open>process_heap_dump\<close> returns
  (with the given outcome of the Analyzer), or the next statement is executed.
\<close>

definition thread_step :: "nat \<Rightarrow> run_outcome \<Rightarrow> string list \<Rightarrow> world \<Rightarrow> world" where
  "thread_step i outcome files w =
     (if i < length (threads w)
      then (case threads w ! i of
              (ref, Analyzing) \<Rightarrow>
                (let (res, logs) =
                       process_heap_dump (docker_image w) (file_path (heap w ! ref))
                         memory_limit outcome files
                 in w\<lparr>logged := logged w @ logs,
                      threads := (threads w)[i := (ref, Writing (background_body res
                                    (filename (heap w ! ref))))]\<rparr>)
            | (ref, Writing []) \<Rightarrow> w
            | (ref, Writing (s # rest)) \<Rightarrow>
                (let w1 = exec_stmt ref s w
                 in w1\<lparr>threads := (threads w1)[i := (ref, Writing rest)]\<rparr>))
      else w)"

text \<open>\<open>_background_process\<close> run from start to end without interruption.\<close>

definition background_process :: "nat \<Rightarrow> run_outcome \<Rightarrow> string list \<Rightarrow> world \<Rightarrow> world" where
  "background_process i outcome files w = (thread_step i outcome files ^^ 8) w"

subsection \<open>Executions\<close>

datatype action =
    Created event datetime
  | Run nat run_outcome "string list"

fun step :: "action \<Rightarrow> world \<Rightarrow> world" where
  "step (Created ev now) w = on_created ev now w"
| "step (Run i outcome files) w = thread_step i outcome files w"

definition run :: "action list \<Rightarrow> world \<Rightarrow> world" where
  "run acts w = fold step acts w"

subsection \<open>The status endpoint\<close>

record status_summary =
  total_reports :: nat
  processing :: nat
  completed :: nat
  failed :: nat



subsection \<open>A concrete run\<close>

text \<open>The inputs that the concrete evaluations below share.\<close>

definition example_now :: datetime where
  "example_now = \<lparr>year = 2024, month = 3, day = 1, hour = 9, minute = 5, second = 59, microsecond = 7\<rparr>"

definition example_event :: event where
  "example_event = \<lparr>is_directory = False, src_path = ''/dump/web01_20240301.HPROF''\<rparr>"

definition example_image :: string where
  "example_image = ''docker.bintray.io/jfrog/auto-mat''"

definition example_report :: HeapDumpReport where
  "example_report =
     \<lparr>machine_name = ''web01'', timestamp = example_now, filename = ''web01_20240301.HPROF'',
      file_path = ''/dump/web01_20240301.HPROF'', status = ''processing'',
      suspects_report = None, overview_report = None, error_message = None,
      processing_time = None\<rparr>"

subsection \<open>Derived artifact paths\<close>

text \<open>
  The two paths at which \<open>process_heap_dump\<close> looks for the reports of a dump: the
  directory of the source file, its name without the extension, and a fixed suffix.
\<close>

definition derived_suspects_path :: "string \<Rightarrow> string" where
  "derived_suspects_path path =
     join (dirname path) (fst (splitext (basename path)) @ ''_Leak_Suspects.html'')"

definition derived_overview_path :: "string \<Rightarrow> string" where
  "derived_overview_path path =
     join (dirname path) (fst (splitext (basename path)) @ ''_System_Overview.html'')"

text \<open>A state in which the report object exists but is not in the dictionary.\<close>

definition orphan_world :: world where
  "orphan_world =
     \<lparr>docker_image = example_image, heap = [example_report], reports = [],
      logged = [(INFO, [Str ''Started processing heap dump: web01_20240301.HPROF''])],
      threads = []\<rparr>"

subsection \<open>The report a submission creates\<close>

text \<open>The \<open>HeapDumpReport\<close> that \<open>_process_heap_dump\<close> constructs for a path and a time.\<close>

definition initial_report :: "string \<Rightarrow> datetime \<Rightarrow> HeapDumpReport" where
  "initial_report path now =
     \<lparr>machine_name = extract_machine_name (basename path), timestamp = now,
      filename = basename path, file_path = path, status = ''processing'',
      suspects_report = None, overview_report = None, error_message = None,
      processing_time = None\<rparr>"

text \<open>A second dump of the same machine, detected within the same second.\<close>

definition second_path :: string where
  "second_path = ''/dump/web01_second.hprof''"

definition second_now :: datetime where
  "second_now = example_now\<lparr>microsecond := 999\<rparr>"

text \<open>Three reports: two of the first of March at different times, one of the second.\<close>

definition date_world :: world where
  "date_world =
     \<lparr>docker_image = example_image,
      heap = [example_report,
              example_report\<lparr>timestamp := example_now\<lparr>hour := 23\<rparr>\<rparr>,
              example_report\<lparr>timestamp := example_now\<lparr>day := 2\<rparr>\<rparr>],
      reports = [(''web01_20240301_090559'', 0), (''web01_20240301_230559'', 1),
                 (''web01_20240302_090559'', 2)],
      logged = [],
      threads = [(0, Analyzing), (1, Analyzing), (2, Analyzing)]\<rparr>"

subsection \<open>Tokens of a filename\<close>





subsection \<open>States of a report and the invariant of executions\<close>

definition terminal :: "string \<Rightarrow> bool" where
  "terminal s \<longleftrightarrow> s = ''completed'' \<or> s = ''failed''"

fun sets_status :: "stmt \<Rightarrow> bool" where
  "sets_status (SetStatus s) = True"
| "sets_status (SetSuspects x) = False"
| "sets_status (SetOverview x) = False"
| "sets_status (SetError x) = False"
| "sets_status (SetTime x) = False"
| "sets_status UpdateReport = False"
| "sets_status (Log l) = False"

text \<open>
  What holds between a report and the thread that owns it: while the thread has its
  assignment to \<open>status\<close> before it, the report is \<open>processing\<close> and the value to assign is
  terminal; afterwards the report is terminal and no assignment to \<open>status\<close> is left.
\<close>

fun thread_ok :: "HeapDumpReport \<Rightarrow> thread_state \<Rightarrow> bool" where
  "thread_ok r Analyzing = (status r = ''processing'')"
| "thread_ok r (Writing []) = terminal (status r)"
| "thread_ok r (Writing (s # rest)) =
     (if sets_status s
      then status r = ''processing'' \<and> list_all terminal (case s of SetStatus x \<Rightarrow> [x] | _ \<Rightarrow> []) \<and>
           \<not> list_ex sets_status rest
      else terminal (status r) \<and> \<not> list_ex sets_status rest)"

text \<open>
  Thread \<open>i\<close> owns report \<open>i\<close>, every report stands in the relation above to its thread,
  and the dictionary holds references to allocated reports only.
\<close>

definition consistent :: "world \<Rightarrow> bool" where
  "consistent w \<longleftrightarrow>
     map fst (threads w) = [0 ..< length (heap w)] \<and>
     list_all (\<lambda>i. thread_ok (heap w ! i) (snd (threads w ! i))) [0 ..< length (heap w)] \<and>
     list_all (\<lambda>ref. ref < length (heap w)) (map snd (reports w))"

text \<open>A successful run of the Analyzer that leaves both reports on disk.\<close>

definition example_success :: run_outcome where
  "example_success = CompletedProcess 0 [] 42"

definition example_files :: "string list" where
  "example_files =
     [''/dump/web01_20240301_Leak_Suspects.html'', ''/dump/web01_20240301_System_Overview.html'']"

subsection \<open>Counting the write-backs of a thread\<close>

text \<open>
  \<open>executes_update a w i\<close>: in state \<open>w\<close> the action \<open>a\<close> is a step of thread \<open>i\<close> whose
  next statement is the call of \<open>update_report\<close>.  \<open>write_backs acts w i\<close> counts these
  steps along the execution of \<open>acts\<close> from \<open>w\<close>.  \<open>pending_write_backs\<close> is the number of
  calls of \<open>update_report\<close> a thread still has before it: one while it is inside
  \<open>process_heap_dump\<close>, and afterwards as many as its remaining statements hold.
\<close>

fun pending_write_backs :: "thread_state \<Rightarrow> nat" where
  "pending_write_backs Analyzing = 1"
| "pending_write_backs (Writing ss) = length (filter (\<lambda>s. s = UpdateReport) ss)"

fun executes_update :: "action \<Rightarrow> world \<Rightarrow> nat \<Rightarrow> bool" where
  "executes_update (Created ev now) w i = False"
| "executes_update (Run j outcome files) w i =
     (j = i \<and> j < length (threads w) \<and>
      (case snd (threads w ! j) of
         Analyzing \<Rightarrow> False
       | Writing ss \<Rightarrow> (case ss of [] \<Rightarrow> False | s # rest \<Rightarrow> s = UpdateReport)))"

fun write_backs :: "action list \<Rightarrow> world \<Rightarrow> nat \<Rightarrow> nat" where
  "write_backs [] w i = 0"
| "write_backs (a # acts) w i =
     (if executes_update a w i then 1 else 0) + write_backs acts (step a w) i"

section \<open>Properties\<close>

subsection \<open>Running a background thread\<close>

lemma heap_update_report [simp]: "heap (update_report ref w) = heap w"
  by (simp add: update_report_def Let_def)

lemma threads_update_report [simp]: "threads (update_report ref w) = threads w"
  by (simp add: update_report_def Let_def)

lemma logged_update_report [simp]: "logged (update_report ref w) = logged w"
  by (simp add: update_report_def Let_def)

lemma docker_image_update_report [simp]: "docker_image (update_report ref w) = docker_image w"
  by (simp add: update_report_def Let_def)

lemma heap_log_to [simp]: "heap (log_to l w) = heap w"
  by (simp add: log_to_def)

lemma threads_log_to [simp]: "threads (log_to l w) = threads w"
  by (simp add: log_to_def)

lemma reports_log_to [simp]: "reports (log_to l w) = reports w"
  by (simp add: log_to_def)

lemma docker_image_log_to [simp]: "docker_image (log_to l w) = docker_image w"
  by (simp add: log_to_def)

lemma threads_exec_stmt [simp]: "threads (exec_stmt ref s w) = threads w"
  by (cases s) simp_all

lemma docker_image_exec_stmt [simp]: "docker_image (exec_stmt ref s w) = docker_image w"
  by (cases s) simp_all

lemma length_heap_exec_stmt [simp]: "length (heap (exec_stmt ref s w)) = length (heap w)"
  by (cases s) simp_all

lemma threads_fold_exec [simp]: "threads (fold (exec_stmt ref) ss w) = threads w"
  by (induction ss arbitrary: w) simp_all

lemma thread_step_Analyzing:
  "i < length (threads w) \<Longrightarrow> threads w ! i = (ref, Analyzing) \<Longrightarrow>
   thread_step i outcome files w =
     w\<lparr>logged := logged w @
          snd (process_heap_dump (docker_image w) (file_path (heap w ! ref)) memory_limit outcome files),
       threads := (threads w)[i := (ref, Writing (background_body
          (fst (process_heap_dump (docker_image w) (file_path (heap w ! ref)) memory_limit outcome files))
          (filename (heap w ! ref))))]\<rparr>"
  by (simp add: thread_step_def split_beta)

lemma thread_step_Writing:
  "i < length (threads w) \<Longrightarrow> threads w ! i = (ref, Writing (s # rest)) \<Longrightarrow>
   thread_step i outcome files w = (exec_stmt ref s w)\<lparr>threads := (threads w)[i := (ref, Writing rest)]\<rparr>"
  by (simp add: thread_step_def Let_def)

lemma thread_step_done:
  "i < length (threads w) \<Longrightarrow> threads w ! i = (ref, Writing []) \<Longrightarrow>
   thread_step i outcome files w = w"
  by (simp add: thread_step_def)

lemma exec_stmt_threads_update:
  "exec_stmt ref s (w\<lparr>threads := ts\<rparr>) = (exec_stmt ref s w)\<lparr>threads := ts\<rparr>"
  by (cases s) (simp_all add: update_report_def log_to_def Let_def)

lemma fold_exec_threads_update:
  "fold (exec_stmt ref) ss (w\<lparr>threads := ts\<rparr>) = (fold (exec_stmt ref) ss w)\<lparr>threads := ts\<rparr>"
  by (induction ss arbitrary: w) (simp_all add: exec_stmt_threads_update)

lemma run_writing:
  "i < length (threads w) \<Longrightarrow> threads w ! i = (ref, Writing ss) \<Longrightarrow>
   (thread_step i outcome files ^^ length ss) w =
     (fold (exec_stmt ref) ss w)\<lparr>threads := (threads w)[i := (ref, Writing [])]\<rparr>"
proof (induction ss arbitrary: w)
  case Nil
  then show ?case using list_update_id [of "threads w" i] by simp
next
  case (Cons s ss)
  let ?w1 = "(exec_stmt ref s w)\<lparr>threads := (threads w)[i := (ref, Writing ss)]\<rparr>"
  have "(thread_step i outcome files ^^ length (s # ss)) w =
        (thread_step i outcome files ^^ length ss) (thread_step i outcome files w)"
    by (simp add: funpow_swap1)
  also have "thread_step i outcome files w = ?w1"
    using Cons.prems by (rule thread_step_Writing)
  also have "(thread_step i outcome files ^^ length ss) ?w1 =
      (fold (exec_stmt ref) ss ?w1)\<lparr>threads := (threads ?w1)[i := (ref, Writing [])]\<rparr>"
    using Cons.prems by (intro Cons.IH) simp_all
  finally show ?case
    by (simp add: fold_exec_threads_update)
qed

lemma length_background_body [simp]: "length (background_body res fname) = 7"
  by (simp add: background_body_def)

lemma background_process_Analyzing:
  assumes "i < length (threads w)" and "threads w ! i = (ref, Analyzing)"
  shows "background_process i outcome files w =
     (fold (exec_stmt ref)
        (background_body
          (fst (process_heap_dump (docker_image w) (file_path (heap w ! ref)) memory_limit outcome files))
          (filename (heap w ! ref)))
        (w\<lparr>logged := logged w @
          snd (process_heap_dump (docker_image w) (file_path (heap w ! ref)) memory_limit outcome files)\<rparr>))
     \<lparr>threads := (threads w)[i := (ref, Writing [])]\<rparr>"
proof -
  let ?res = "fst (process_heap_dump (docker_image w) (file_path (heap w ! ref)) memory_limit outcome files)"
  let ?logs = "snd (process_heap_dump (docker_image w) (file_path (heap w ! ref)) memory_limit outcome files)"
  let ?body = "background_body ?res (filename (heap w ! ref))"
  let ?w1 = "w\<lparr>logged := logged w @ ?logs, threads := (threads w)[i := (ref, Writing ?body)]\<rparr>"
  have "background_process i outcome files w =
        (thread_step i outcome files ^^ length ?body) (thread_step i outcome files w)"
    by (simp add: background_process_def eval_nat_numeral funpow_swap1)
  also have "thread_step i outcome files w = ?w1"
    using assms by (rule thread_step_Analyzing)
  also have "(thread_step i outcome files ^^ length ?body) ?w1 =
       (fold (exec_stmt ref) ?body ?w1)\<lparr>threads := (threads ?w1)[i := (ref, Writing [])]\<rparr>"
    using assms by (intro run_writing) simp_all
  finally show ?thesis
    by (simp add: fold_exec_threads_update)
qed

lemma heap_after_body:
  "ref < length (heap w) \<Longrightarrow>
   heap (fold (exec_stmt ref) (background_body res fname) w) =
     (heap w)[ref := (heap w ! ref)\<lparr>status := res_status res,
        suspects_report := res_suspects_report res,
        overview_report := res_overview_report res,
        error_message := res_error_message res,
        processing_time := res_processing_time res\<rparr>]"
  by (simp add: background_body_def)

subsection \<open>Evaluating the concrete run\<close>

lemma extract_example: "extract_machine_name ''web01_20240301.HPROF'' = ''web01''"
  by (simp add: extract_machine_name_def patterns_def)

lemma strftime_example: "strftime_Ymd_HMS example_now = ''20240301_090559''"
  by (simp add: strftime_Ymd_HMS_def example_now_def pad2_def show_nat.simps digit_char_def)

lemma accepted_example:
  "list_ex (\<lambda>ext. endswith (lower ''/dump/web01_20240301.HPROF'') ext) heap_dump_extensions"
  by (simp add: heap_dump_extensions_def endswith_def lower_def lower_char_def)

lemma basename_example: "basename ''/dump/web01_20240301.HPROF'' = ''web01_20240301.HPROF''"
  by (simp add: basename_def rfind_def)

lemma example_world:
  "on_created example_event example_now (init example_image) =
     \<lparr>docker_image = example_image,
      heap = [example_report],
      reports = [(''web01_20240301_090559'', 0)],
      logged = [(INFO, [Str ''Started processing heap dump: web01_20240301.HPROF''])],
      threads = [(0, Analyzing)]\<rparr>"
  by (simp add: on_created_def example_event_def accepted_example handler_process_heap_dump_def
      basename_example extract_example init_def add_report_def report_id_def strftime_example
      log_to_def example_report_def Let_def)

subsection \<open>Paths\<close>

lemma rfind_absent: "c \<notin> set s \<Longrightarrow> rfind s c = - 1"
  by (simp add: rfind_def)

lemma rfind_last_occurrence: "c \<notin> set f \<Longrightarrow> rfind (d @ c # f) c = int (length d)"
proof -
  assume a: "c \<notin> set f"
  have "takeWhile (\<lambda>x. x \<noteq> c) (rev f @ c # rev d) = rev f"
    using a by (auto simp: takeWhile_tail)
  then show ?thesis by (simp add: rfind_def)
qed

lemma nat_int_Suc: "nat (int n + 1) = Suc n"
  by simp

lemma endswith_iff_suffix: "endswith s suf \<longleftrightarrow> suffix suf s"
proof
  assume "endswith s suf"
  then have "s = take (length s - length suf) s @ suf"
    by (metis append_take_drop_id endswith_def)
  then show "suffix suf s" by (metis suffixI)
next
  assume "suffix suf s"
  then obtain zs where "s = zs @ suf" by (auto simp: suffix_def)
  then show "endswith s suf" by (simp add: endswith_def)
qed

lemma endswith_slash: "endswith d ''/'' \<longleftrightarrow> d \<noteq> [] \<and> last d = CHR ''/''"
proof (cases "d = []")
  case True
  then show ?thesis by (simp add: endswith_def)
next
  case False
  have "suffix ''/'' d \<longleftrightarrow> last d = CHR ''/''"
  proof
    assume "suffix ''/'' d"
    then obtain zs where "d = zs @ ''/''" by (auto simp: suffix_def)
    then have "last d = last (zs @ ''/'')" by simp
    then show "last d = CHR ''/''" by simp
  next
    assume "last d = CHR ''/''"
    with False have "butlast d @ ''/'' = d" using append_butlast_last_id [of d] by simp
    then show "suffix ''/'' d" by (metis suffixI)
  qed
  with False show ?thesis by (simp add: endswith_iff_suffix)
qed

lemma basename_after_slash: "CHR ''/'' \<notin> set f \<Longrightarrow> basename (d @ CHR ''/'' # f) = f"
  by (simp add: basename_def rfind_last_occurrence nat_int_Suc)

lemma basename_no_slash: "CHR ''/'' \<notin> set f \<Longrightarrow> basename f = f"
  by (simp add: basename_def rfind_absent)

lemma rstrip_no_trailing: "d \<noteq> [] \<Longrightarrow> last d \<noteq> c \<Longrightarrow> rstrip (d @ [c]) c = d"
proof -
  assume a: "d \<noteq> []" "last d \<noteq> c"
  then have "hd (rev d) \<noteq> c" by (simp add: hd_rev)
  with a have "dropWhile (\<lambda>x. x = c) (rev d) = rev d"
    by (cases "rev d") auto
  then show ?thesis by (simp add: rstrip_def)
qed

lemma dirname_after_slash:
  assumes "CHR ''/'' \<notin> set f" and "d \<noteq> []" and "last d \<noteq> CHR ''/''"
  shows "dirname (d @ CHR ''/'' # f) = d"
proof -
  have neq: "d @ ''/'' \<noteq> replicate (Suc (length d)) CHR ''/''"
  proof
    assume "d @ ''/'' = replicate (Suc (length d)) CHR ''/''"
    then have "d @ ''/'' = replicate (length d) CHR ''/'' @ ''/''"
      by (simp add: replicate_append_same)
    then have "d = replicate (length d) CHR ''/''" by simp
    with assms(2) have "last d = CHR ''/''"
      by (metis last_replicate length_0_conv)
    with assms(3) show False by simp
  qed
  show ?thesis
    using assms neq
    using rstrip_no_trailing [of d "CHR ''/''"]
    by (simp add: dirname_def rfind_last_occurrence Let_def nat_int_Suc)
qed

lemma skip_leading_dots_iff:
  "skip_leading_dots p k m = (\<exists>j. k \<le> j \<and> j < m \<and> take 1 (drop j p) \<noteq> ''.'')"
proof (induction p k m rule: skip_leading_dots.induct)
  case (1 p k m)
  show ?case
  proof (cases "k < m")
    case False
    then show ?thesis by (subst skip_leading_dots.simps) auto
  next
    case True
    show ?thesis
    proof (cases "take 1 (drop k p) \<noteq> ''.''")
      case True
      with \<open>k < m\<close> show ?thesis by (subst skip_leading_dots.simps) auto
    next
      case False
      then have eq: "take 1 (drop k p) = ''.''" by simp
      have "skip_leading_dots p k m = skip_leading_dots p (Suc k) m"
        using \<open>k < m\<close> eq by (subst skip_leading_dots.simps) simp
      also have "\<dots> = (\<exists>j. Suc k \<le> j \<and> j < m \<and> take 1 (drop j p) \<noteq> ''.'')"
        using "1.IH" \<open>k < m\<close> eq by simp
      also have "\<dots> = (\<exists>j. k \<le> j \<and> j < m \<and> take 1 (drop j p) \<noteq> ''.'')"
        using eq by (metis Suc_leD Suc_leI le_neq_implies_less)
      finally show ?thesis .
    qed
  qed
qed

lemma splitext_stem:
  assumes "CHR ''/'' \<notin> set n" and "CHR ''/'' \<notin> set e" and "CHR ''.'' \<notin> set e"
    and "n \<noteq> []" and "hd n \<noteq> CHR ''.''"
  shows "splitext (n @ CHR ''.'' # e) = (n, CHR ''.'' # e)"
proof -
  have sep: "rfind (n @ CHR ''.'' # e) CHR ''/'' = - 1"
    using assms by (simp add: rfind_absent)
  have dot: "rfind (n @ CHR ''.'' # e) CHR ''.'' = int (length n)"
    using assms by (simp add: rfind_last_occurrence)
  have "take 1 (drop 0 (n @ CHR ''.'' # e)) \<noteq> ''.''"
    using assms by (cases n) auto
  then have "skip_leading_dots (n @ CHR ''.'' # e) 0 (length n)"
    using assms(4) unfolding skip_leading_dots_iff by blast
  then show ?thesis
    by (simp add: splitext_def sep dot)
qed

lemma join_dir: "d \<noteq> [] \<Longrightarrow> last d \<noteq> CHR ''/'' \<Longrightarrow> b \<noteq> [] \<Longrightarrow> hd b \<noteq> CHR ''/'' \<Longrightarrow>
  join d b = d @ ''/'' @ b"
  by (cases b) (simp_all add: join_def startswith_def endswith_slash)

subsection \<open>The handler\<close>

lemma accepted_iff:
  "list_ex (\<lambda>ext. endswith s ext) heap_dump_extensions \<longleftrightarrow>
     suffix ''.hprof'' s \<or> suffix ''.dump'' s \<or> suffix ''.bin'' s"
  by (simp add: heap_dump_extensions_def endswith_iff_suffix)

lemma handler_process_heap_dump_eq:
  "handler_process_heap_dump path now w =
     w\<lparr>heap := heap w @ [initial_report path now],
       reports := AList.update (report_id (initial_report path now)) (length (heap w)) (reports w),
       logged := logged w @ [(INFO, [Str (''Started processing heap dump: '' @ basename path)])],
       threads := threads w @ [(length (heap w), Analyzing)]\<rparr>"
  by (simp add: handler_process_heap_dump_def Let_def add_report_def log_to_def initial_report_def)

lemma lower_example: "lower ''/dump/web01_20240301.HPROF'' = ''/dump/web01_20240301.hprof''"
  by (simp add: lower_def lower_char_def)

subsection \<open>The manager\<close>

lemma update_report_cases:
  "update_report ref w =
     (if report_id (heap w ! ref) \<in> fst ` set (reports w)
      then w\<lparr>reports := AList.update (report_id (heap w ! ref)) ref (reports w)\<rparr>
      else w)"
  by (simp add: update_report_def Let_def)

lemma report_id_example: "report_id example_report = ''web01_20240301_090559''"
  by (simp add: report_id_def example_report_def strftime_example)

subsection \<open>Report ids\<close>

lemma show_nat_4digits:
  assumes "1000 \<le> y" and "y \<le> 9999"
  shows "show_nat y = [digit_char (y div 1000), digit_char (y div 100), digit_char (y div 10), digit_char y]"
proof -
  have a: "show_nat y = show_nat (y div 10) @ [digit_char y]"
    using assms by (subst show_nat.simps) simp
  have b: "show_nat (y div 10) = show_nat (y div 100) @ [digit_char (y div 10)]"
    using assms by (subst show_nat.simps) (simp add: div_mult2_eq [symmetric])
  have c: "show_nat (y div 100) = show_nat (y div 1000) @ [digit_char (y div 100)]"
    using assms by (subst show_nat.simps) (simp add: div_mult2_eq [symmetric])
  have d: "show_nat (y div 1000) = [digit_char (y div 1000)]"
    using assms by (subst show_nat.simps) simp
  show ?thesis by (simp add: a b c d)
qed

lemma pad2_2digits:
  assumes "n < 100"
  shows "pad2 n = [digit_char (n div 10), digit_char n]"
proof (cases "n < 10")
  case True
  then show ?thesis by (simp add: pad2_def show_nat.simps digit_char_def)
next
  case False
  have a: "show_nat n = show_nat (n div 10) @ [digit_char n]"
    using False by (subst show_nat.simps) simp
  have b: "show_nat (n div 10) = [digit_char (n div 10)]"
    using assms by (subst show_nat.simps) simp
  show ?thesis using False by (simp add: pad2_def a b)
qed

lemma strftime_layout:
  assumes "1000 \<le> year t" "year t \<le> 9999" "month t < 100" "day t < 100"
    "hour t < 100" "minute t < 100" "second t < 100"
  shows "strftime_Ymd_HMS t =
     [digit_char (year t div 1000), digit_char (year t div 100), digit_char (year t div 10),
      digit_char (year t),
      digit_char (month t div 10), digit_char (month t),
      digit_char (day t div 10), digit_char (day t),
      CHR ''_'',
      digit_char (hour t div 10), digit_char (hour t),
      digit_char (minute t div 10), digit_char (minute t),
      digit_char (second t div 10), digit_char (second t)]"
  using assms by (simp add: strftime_Ymd_HMS_def show_nat_4digits pad2_2digits)

lemma strftime_same_second:
  assumes "year t1 = year t2" "month t1 = month t2" "day t1 = day t2"
    "hour t1 = hour t2" "minute t1 = minute t2" "second t1 = second t2"
  shows "strftime_Ymd_HMS t1 = strftime_Ymd_HMS t2"
  using assms by (simp add: strftime_Ymd_HMS_def)

lemma distinct_keys_update:
  "distinct (map fst al) \<Longrightarrow> distinct (map fst (AList.update k v al))"
  by (rule distinct_update)

lemma distinct_filter_one:
  "distinct xs \<Longrightarrow> x \<in> set xs \<Longrightarrow> length (filter (\<lambda>k. k = x) xs) = 1"
  by (induction xs) (auto simp: filter_empty_conv)

lemma machine_example: "extract_machine_name (basename ''/dump/web01_20240301.HPROF'') = ''web01''"
  by (simp add: basename_example extract_example)

lemma machine_second: "extract_machine_name (basename second_path) = ''web01''"
  by (simp add: second_path_def basename_def rfind_def extract_machine_name_def patterns_def)

lemma strftime_second: "strftime_Ymd_HMS second_now = ''20240301_090559''"
  by (simp add: strftime_Ymd_HMS_def second_now_def example_now_def pad2_def show_nat.simps
      digit_char_def)

subsection \<open>Parsing dates\<close>


lemma re_match_literal:
  "re_match (Rep (Lit c) ExactlyOne False # ps) (c # s) = re_match ps s"
  by (cases "re_match ps s") (simp_all add: min_def)

lemma re_match_regex_day:
  assumes "D \<in> set [''01'', ''02'', ''03'', ''04'', ''05'', ''06'', ''07'', ''08'', ''09'', ''10'',
     ''11'', ''12'', ''13'', ''14'', ''15'', ''16'', ''17'', ''18'', ''19'', ''20'',
     ''21'', ''22'', ''23'', ''24'', ''25'', ''26'', ''27'', ''28'', ''29'', ''30'', ''31'']"
  shows "re_match [Alt [[Lit CHR ''3'', OneOf ''01''], [OneOf ''12'', digit], [Lit CHR ''0'', nonzero],
           [nonzero], [Lit CHR '' '', nonzero]]] D = Some ([D], [])"
  using assms unfolding set_simps insert_iff empty_iff
  by (elim disjE) (simp_all add: digit_def nonzero_def)

lemma re_match_regex_month:
  assumes "M \<in> set [''01'', ''02'', ''03'', ''04'', ''05'', ''06'', ''07'', ''08'', ''09'', ''10'',
     ''11'', ''12'']"
  shows "re_match (Alt [[Lit CHR ''1'', OneOf ''012''], [Lit CHR ''0'', nonzero], [nonzero]] #
           Rep (Lit CHR ''-'') ExactlyOne False # ps) (M @ CHR ''-'' # s) =
         map_option (\<lambda>(gs, rest). (M # gs, rest)) (re_match ps s)"
  using assms unfolding set_simps insert_iff empty_iff
  by (elim disjE; cases "re_match ps s") (simp_all add: nonzero_def min_def)

lemma re_match_regex_year:
  assumes "set Y \<subseteq> set ''0123456789''" and "length Y = 4"
  shows "re_match (Alt [[digit, digit, digit, digit]] #
           Rep (Lit CHR ''-'') ExactlyOne False # ps) (Y @ CHR ''-'' # s) =
         map_option (\<lambda>(gs, rest). (Y # gs, rest)) (re_match ps s)"
proof -
  obtain a b c d where Y: "Y = [a, b, c, d]"
    using assms(2) by (auto simp: length_Suc_conv eval_nat_numeral)
  have "fits [digit, digit, digit, digit] (a # b # c # d # CHR ''-'' # s)"
    using assms(1) by (simp add: Y digit_def)
  then show ?thesis
    by (cases "re_match ps s") (simp_all add: Y min_def)
qed


lemma digit_char_space: "digit_char k \<noteq> CHR '' ''"
proof -
  have "k mod 10 = 0 \<or> k mod 10 = 1 \<or> k mod 10 = 2 \<or> k mod 10 = 3 \<or> k mod 10 = 4 \<or>
        k mod 10 = 5 \<or> k mod 10 = 6 \<or> k mod 10 = 7 \<or> k mod 10 = 8 \<or> k mod 10 = 9"
    by arith
  then show ?thesis
    unfolding digit_char_def
    by (elim disjE) simp_all
qed

lemma digit_char_cases:
  "digit_char k \<in> set ''0123456789'' \<and> digit_val (digit_char k) = k mod 10"
proof -
  have "k mod 10 = 0 \<or> k mod 10 = 1 \<or> k mod 10 = 2 \<or> k mod 10 = 3 \<or> k mod 10 = 4 \<or>
        k mod 10 = 5 \<or> k mod 10 = 6 \<or> k mod 10 = 7 \<or> k mod 10 = 8 \<or> k mod 10 = 9"
    by arith
  then show ?thesis
    unfolding digit_char_def
    by (elim disjE) (simp_all add: digit_val_def)
qed

lemma int_of_str_year:
  assumes "1000 \<le> y" and "y \<le> 9999"
  shows "int_of_str (show_nat y) = y"
proof -
  have "int_of_str (show_nat y) =
     10 * (10 * (10 * (y div 1000 mod 10) + y div 100 mod 10) + y div 10 mod 10) + y mod 10"
    using assms by (simp add: show_nat_4digits int_of_str_def digit_char_cases digit_char_space)
  also have "\<dots> = y"
  proof -
    have e1: "y div 100 = y div 10 div 10" and e2: "y div 1000 = y div 10 div 10 div 10"
      by (simp_all add: div_mult2_eq [symmetric])
    have "y div 1000 < 10" using assms by simp
    then have c: "y div 10 div 10 div 10 mod 10 = y div 10 div 10 div 10"
      by (simp add: e2)
    show ?thesis unfolding e1 e2 c by simp
  qed
  finally show ?thesis .
qed


lemma pad2_month:
  assumes "1 \<le> m" and "m \<le> 12"
  shows "pad2 m \<in> set [''01'', ''02'', ''03'', ''04'', ''05'', ''06'', ''07'', ''08'', ''09'', ''10'',
     ''11'', ''12''] \<and> int_of_str (pad2 m) = m"
proof -
  have "m = 1 \<or> m = 2 \<or> m = 3 \<or> m = 4 \<or> m = 5 \<or> m = 6 \<or> m = 7 \<or> m = 8 \<or> m = 9 \<or>
        m = 10 \<or> m = 11 \<or> m = 12"
    using assms by arith
  then show ?thesis
    by (elim disjE)
      (simp_all add: pad2_def show_nat.simps digit_char_def int_of_str_def digit_val_def)
qed

lemma pad2_day:
  assumes "1 \<le> d" and "d \<le> 31"
  shows "pad2 d \<in> set [''01'', ''02'', ''03'', ''04'', ''05'', ''06'', ''07'', ''08'', ''09'', ''10'',
     ''11'', ''12'', ''13'', ''14'', ''15'', ''16'', ''17'', ''18'', ''19'', ''20'',
     ''21'', ''22'', ''23'', ''24'', ''25'', ''26'', ''27'', ''28'', ''29'', ''30'', ''31''] \<and>
     int_of_str (pad2 d) = d"
proof -
  have "d = 1 \<or> d = 2 \<or> d = 3 \<or> d = 4 \<or> d = 5 \<or> d = 6 \<or> d = 7 \<or> d = 8 \<or> d = 9 \<or>
        d = 10 \<or> d = 11 \<or> d = 12 \<or> d = 13 \<or> d = 14 \<or> d = 15 \<or> d = 16 \<or> d = 17 \<or>
        d = 18 \<or> d = 19 \<or> d = 20 \<or> d = 21 \<or> d = 22 \<or> d = 23 \<or> d = 24 \<or> d = 25 \<or>
        d = 26 \<or> d = 27 \<or> d = 28 \<or> d = 29 \<or> d = 30 \<or> d = 31"
    using assms by arith
  then show ?thesis
    by (elim disjE)
      (simp_all add: pad2_def show_nat.simps digit_char_def int_of_str_def digit_val_def)
qed

lemma days_in_month_le: "days_in_month y m \<le> 31"
  by (simp add: days_in_month_def)

lemma strptime_isoformat:
  assumes "valid_date y m d" and "1000 \<le> y"
  shows "strptime_Ymd (show_nat y @ ''-'' @ pad2 m @ ''-'' @ pad2 d) =
           Some \<lparr>year = y, month = m, day = d\<rparr>"
proof -
  have y: "y \<le> 9999" and m: "1 \<le> m" "m \<le> 12" and d: "1 \<le> d" "d \<le> 31"
    using assms(1) days_in_month_le [of y m] by (simp_all add: valid_date_def)
  have Y: "set (show_nat y) \<subseteq> set ''0123456789''" "length (show_nat y) = 4"
    using assms(2) y digit_char_cases by (simp_all add: show_nat_4digits)
  have "re_match format_regex (show_nat y @ CHR ''-'' # pad2 m @ CHR ''-'' # pad2 d) =
          Some ([show_nat y, pad2 m, pad2 d], [])"
    unfolding format_regex_def
    by (simp only: re_match_regex_year [OF Y] re_match_regex_month [OF conjunct1 [OF pad2_month [OF m]]]
        re_match_regex_day [OF conjunct1 [OF pad2_day [OF d]]]) simp
  then show ?thesis
    using assms pad2_month [OF m] pad2_day [OF d] int_of_str_year [OF assms(2) y]
    by (simp add: strptime_Ymd_def)
qed

subsection \<open>The matcher\<close>


lemma first_some_Cons_Some: "f x = Some y \<Longrightarrow> first_some f (x # xs) = Some y"
  by simp

lemma first_some_Cons_None: "f x = None \<Longrightarrow> first_some f (x # xs) = first_some f xs"
  by simp


lemma re_match_dot_star: "re_match [Rep Dot ZeroOrMore False] s \<noteq> None"
proof -
  let ?n = "length (takeWhile (atom_ok Dot) s)"
  have "rev [0..<Suc ?n] = ?n # rev [0..<?n]" by simp
  then show ?thesis by (simp del: upt_Suc atom_ok.simps)
qed


subsection \<open>The patterns of the machine name\<close>































text \<open>
  On a name with several dots and no underscore the third pattern returns the text before
  the first dot, which is not the name without its extension.
\<close>

lemma multi_dot_name:
  "extract_machine_name ''web01.tar.hprof'' = ''web01'' \<and>
   fst (splitext ''web01.tar.hprof'') = ''web01.tar''"
  by (simp add: extract_machine_name_def patterns_def splitext_def rfind_def
      skip_leading_dots.simps)

subsection \<open>The invariant\<close>

lemma consistent_iff:
  "consistent w \<longleftrightarrow>
     map fst (threads w) = [0 ..< length (heap w)] \<and>
     (\<forall>i < length (heap w). thread_ok (heap w ! i) (snd (threads w ! i))) \<and>
     (\<forall>ref \<in> snd ` set (reports w). ref < length (heap w))"
  by (auto simp: consistent_def list_all_iff)

lemma consistent_threads:
  assumes "consistent w"
  shows "length (threads w) = length (heap w)"
    and "i < length (heap w) \<Longrightarrow> fst (threads w ! i) = i"
proof -
  have m: "map fst (threads w) = [0 ..< length (heap w)]"
    using assms by (simp add: consistent_iff)
  then show l: "length (threads w) = length (heap w)"
    by (metis length_map length_upt minus_nat.diff_0)
  show "fst (threads w ! i) = i" if "i < length (heap w)"
  proof -
    have "map fst (threads w) ! i = [0 ..< length (heap w)] ! i" by (simp only: m)
    then show ?thesis using that l by simp
  qed
qed

lemma consistent_init: "consistent (init img)"
  by (simp add: consistent_def init_def)

lemma terminal_process_heap_dump:
  "terminal (res_status (fst (process_heap_dump img path mem outcome files)))"
  by (cases outcome) (simp_all add: process_heap_dump_def Let_def terminal_def)

lemma thread_ok_background_body:
  "terminal (res_status res) \<Longrightarrow> status r = ''processing'' \<Longrightarrow>
   thread_ok r (Writing (background_body res fname))"
  by (simp add: background_body_def)

lemma status_exec_stmt:
  "ref < length (heap w) \<Longrightarrow>
   status (heap (exec_stmt ref s w) ! ref) =
     (case s of SetStatus x \<Rightarrow> x | _ \<Rightarrow> status (heap w ! ref))"
  by (cases s) simp_all

lemma heap_exec_stmt_other:
  "j \<noteq> ref \<Longrightarrow> heap (exec_stmt ref s w) ! j = heap w ! j"
  by (cases s) simp_all

lemma set_alist_update_subset: "set (AList.update k v al) \<subseteq> insert (k, v) (set al)"
  by (induction al) auto

lemma reports_update_report_refs:
  "snd ` set (reports (update_report ref w)) \<subseteq> insert ref (snd ` set (reports w))"
proof (cases "report_id (heap w ! ref) \<in> fst ` set (reports w)")
  case True
  then show ?thesis
    using set_alist_update_subset [of "report_id (heap w ! ref)" ref "reports w"]
    by (auto simp: update_report_cases)
next
  case False
  then show ?thesis by (auto simp: update_report_cases)
qed

lemma reports_exec_stmt_refs:
  "snd ` set (reports (exec_stmt ref s w)) \<subseteq> insert ref (snd ` set (reports w))"
  using reports_update_report_refs [of ref w] by (cases s) auto

lemma thread_ok_exec_stmt:
  assumes "thread_ok (heap w ! ref) (Writing (s # rest))" and "ref < length (heap w)"
  shows "thread_ok (heap (exec_stmt ref s w) ! ref) (Writing rest)"
proof (cases "sets_status s")
  case True
  then obtain x where s: "s = SetStatus x" by (cases s) auto
  with assms have "terminal x" "\<not> list_ex sets_status rest" by simp_all
  then show ?thesis using assms(2) s
    by (cases rest) (auto simp: list_ex_iff)
next
  case False
  with assms have t: "terminal (status (heap w ! ref))" "\<not> list_ex sets_status rest" by simp_all
  have "status (heap (exec_stmt ref s w) ! ref) = status (heap w ! ref)"
    using False assms(2) by (cases s) simp_all
  then show ?thesis using t by (cases rest) (auto simp: list_ex_iff)
qed

lemma map_fst_update_same:
  "i < length ts \<Longrightarrow> fst (ts ! i) = r \<Longrightarrow> map fst (ts[i := (r, x)]) = map fst ts"
  by (simp add: map_update list_update_same_conv)

lemma immutable_exec_stmt:
  "machine_name (heap (exec_stmt ref s w) ! j) = machine_name (heap w ! j) \<and>
   timestamp (heap (exec_stmt ref s w) ! j) = timestamp (heap w ! j) \<and>
   filename (heap (exec_stmt ref s w) ! j) = filename (heap w ! j) \<and>
   file_path (heap (exec_stmt ref s w) ! j) = file_path (heap w ! j)"
proof (cases "j = ref \<and> ref < length (heap w)")
  case True
  then show ?thesis by (cases s) simp_all
next
  case False
  then have "heap (exec_stmt ref s w) ! j = heap w ! j"
    by (cases s) (auto simp: nth_list_update list_update_beyond not_less)
  then show ?thesis by simp
qed

lemma snd_alist_update_subset:
  "snd ` set (AList.update k v al) \<subseteq> insert v (snd ` set al)"
proof -
  have "snd ` set (AList.update k v al) \<subseteq> snd ` insert (k, v) (set al)"
    by (rule image_mono) (rule set_alist_update_subset)
  then show ?thesis by simp
qed

lemma consistent_thread_step:
  assumes c: "consistent w"
  shows "consistent (thread_step i outcome files w)"
proof (cases "i < length (threads w)")
  case False
  then show ?thesis using c by (simp add: thread_step_def)
next
  case True
  have len: "length (threads w) = length (heap w)" using c by (rule consistent_threads(1))
  have il: "i < length (heap w)" using True len by simp
  have fi: "fst (threads w ! i) = i" using c il by (rule consistent_threads(2))
  obtain st where ti: "threads w ! i = (i, st)" using fi by (cases "threads w ! i") simp
  have m: "map fst (threads w) = [0 ..< length (heap w)]"
    and ok: "\<And>j. j < length (heap w) \<Longrightarrow> thread_ok (heap w ! j) (snd (threads w ! j))"
    and refs: "\<And>ref. ref \<in> snd ` set (reports w) \<Longrightarrow> ref < length (heap w)"
    using c by (auto simp: consistent_iff)
  show ?thesis
  proof (cases st)
    case Analyzing
    let ?res = "fst (process_heap_dump (docker_image w) (file_path (heap w ! i)) memory_limit outcome files)"
    let ?body = "background_body ?res (filename (heap w ! i))"
    have eq: "thread_step i outcome files w =
       w\<lparr>logged := logged w @
          snd (process_heap_dump (docker_image w) (file_path (heap w ! i)) memory_limit outcome files),
         threads := (threads w)[i := (i, Writing ?body)]\<rparr>"
      using True ti Analyzing by (simp add: thread_step_Analyzing)
    have "status (heap w ! i) = ''processing''"
      using ok [OF il] ti Analyzing by simp
    then have oki: "thread_ok (heap w ! i) (Writing ?body)"
      by (intro thread_ok_background_body terminal_process_heap_dump)
    have "thread_ok (heap w ! j) (snd ((threads w)[i := (i, Writing ?body)] ! j))"
      if "j < length (heap w)" for j
      using that oki ok [OF that] True by (cases "j = i") simp_all
    then show ?thesis
      using m refs True fi
      by (simp add: eq consistent_iff map_fst_update_same)
  next
    case (Writing ss)
    show ?thesis
    proof (cases ss)
      case Nil
      then show ?thesis using c True ti Writing by (simp add: thread_step_done)
    next
      case (Cons s rest)
      let ?w1 = "exec_stmt i s w"
      have eq: "thread_step i outcome files w = ?w1\<lparr>threads := (threads w)[i := (i, Writing rest)]\<rparr>"
        using True ti Writing Cons by (simp add: thread_step_Writing)
      have oki: "thread_ok (heap ?w1 ! i) (Writing rest)"
        using ok [OF il] ti Writing Cons il by (intro thread_ok_exec_stmt) simp_all
      have okj: "thread_ok (heap ?w1 ! j) (snd ((threads w)[i := (i, Writing rest)] ! j))"
        if "j < length (heap w)" for j
      proof (cases "j = i")
        case True
        then show ?thesis using oki \<open>i < length (threads w)\<close> by simp
      next
        case False
        then show ?thesis using ok [OF that] by (simp add: heap_exec_stmt_other)
      qed
      have "ref < length (heap w)" if "ref \<in> snd ` set (reports ?w1)" for ref
        using that reports_exec_stmt_refs [of i s w] refs il by auto
      then show ?thesis
        using m okj True fi
        by (simp add: eq consistent_iff map_fst_update_same)
    qed
  qed
qed

lemma consistent_handler:
  assumes c: "consistent w"
  shows "consistent (handler_process_heap_dump path now w)"
proof -
  have m: "map fst (threads w) = [0 ..< length (heap w)]"
    and ok: "\<And>j. j < length (heap w) \<Longrightarrow> thread_ok (heap w ! j) (snd (threads w ! j))"
    and refs: "\<And>ref. ref \<in> snd ` set (reports w) \<Longrightarrow> ref < length (heap w)"
    using c by (auto simp: consistent_iff)
  have len: "length (threads w) = length (heap w)" using c by (rule consistent_threads(1))
  have okj: "thread_ok ((heap w @ [initial_report path now]) ! j)
      (snd ((threads w @ [(length (heap w), Analyzing)]) ! j))"
    if "j < Suc (length (heap w))" for j
  proof (cases "j < length (heap w)")
    case True
    then show ?thesis using ok [OF True] len by (simp add: nth_append)
  next
    case False
    with that have "j = length (heap w)" by simp
    then show ?thesis using len by (simp add: nth_append initial_report_def)
  qed
  have "ref < Suc (length (heap w))"
    if "ref \<in> snd ` set (AList.update (report_id (initial_report path now)) (length (heap w))
        (reports w))" for ref
    using that snd_alist_update_subset [of "report_id (initial_report path now)" "length (heap w)"
        "reports w"] refs
    by (auto simp: less_Suc_eq)
  then show ?thesis
    using m okj by (simp add: handler_process_heap_dump_eq consistent_iff)
qed

lemma consistent_step: "consistent w \<Longrightarrow> consistent (step a w)"
  by (cases a) (simp_all add: consistent_thread_step on_created_def consistent_handler)

lemma consistent_fold: "consistent w \<Longrightarrow> consistent (fold step acts w)"
  by (induction acts arbitrary: w) (simp_all add: consistent_step)

lemma consistent_run: "consistent (run acts (init img))"
  by (simp add: run_def consistent_fold consistent_init)

subsection \<open>Steps and the state of a report\<close>

lemma processing_not_terminal: "\<not> terminal ''processing''"
  by (simp add: terminal_def)

lemma consistent_status:
  assumes "consistent w" and "ref < length (heap w)"
  shows "status (heap w ! ref) = ''processing'' \<or> terminal (status (heap w ! ref))"
proof -
  have ok: "thread_ok (heap w ! ref) (snd (threads w ! ref))"
    using assms by (simp add: consistent_iff)
  show ?thesis
  proof (cases "snd (threads w ! ref)")
    case Analyzing
    with ok show ?thesis by simp
  next
    case (Writing ss)
    with ok show ?thesis by (cases ss) (auto split: if_splits)
  qed
qed

lemma heap_thread_step:
  assumes c: "consistent w" and r: "ref < length (heap w)"
  shows "length (heap (thread_step i outcome files w)) = length (heap w) \<and>
     (status (heap (thread_step i outcome files w) ! ref) = status (heap w ! ref) \<or>
      status (heap w ! ref) = ''processing'' \<and>
      terminal (status (heap (thread_step i outcome files w) ! ref))) \<and>
     machine_name (heap (thread_step i outcome files w) ! ref) = machine_name (heap w ! ref) \<and>
     timestamp (heap (thread_step i outcome files w) ! ref) = timestamp (heap w ! ref) \<and>
     filename (heap (thread_step i outcome files w) ! ref) = filename (heap w ! ref) \<and>
     file_path (heap (thread_step i outcome files w) ! ref) = file_path (heap w ! ref)"
proof (cases "i < length (threads w)")
  case False
  then show ?thesis by (simp add: thread_step_def)
next
  case True
  have len: "length (threads w) = length (heap w)" using c by (rule consistent_threads(1))
  have il: "i < length (heap w)" using True len by simp
  have fi: "fst (threads w ! i) = i" using c il by (rule consistent_threads(2))
  obtain st where ti: "threads w ! i = (i, st)" using fi by (cases "threads w ! i") simp
  have ok: "thread_ok (heap w ! i) st"
    using c il ti by (auto simp: consistent_iff)
  show ?thesis
  proof (cases st)
    case Analyzing
    then show ?thesis using True ti by (simp add: thread_step_Analyzing)
  next
    case (Writing ss)
    show ?thesis
    proof (cases ss)
      case Nil
      then show ?thesis using True ti Writing by (simp add: thread_step_done)
    next
      case (Cons s rest)
      have eq: "heap (thread_step i outcome files w) = heap (exec_stmt i s w)"
        using True ti Writing Cons by (simp add: thread_step_Writing)
      have st: "status (heap (exec_stmt i s w) ! ref) = status (heap w ! ref) \<or>
          status (heap w ! ref) = ''processing'' \<and> terminal (status (heap (exec_stmt i s w) ! ref))"
      proof (cases "ref = i")
        case False
        then show ?thesis by (simp add: heap_exec_stmt_other)
      next
        case True
        show ?thesis
        proof (cases "sets_status s")
          case False
          then show ?thesis using True il by (cases s) (simp_all add: status_exec_stmt)
        next
          case ss: True
          then obtain x where "s = SetStatus x" by (cases s) auto
          then show ?thesis using ok Writing Cons True il
            by (simp add: status_exec_stmt)
        qed
      qed
      show ?thesis using st immutable_exec_stmt [of i s w ref] by (simp add: eq)
    qed
  qed
qed

lemma heap_on_created:
  assumes "ref < length (heap w)"
  shows "heap (on_created ev now w) ! ref = heap w ! ref"
  using assms by (simp add: on_created_def handler_process_heap_dump_eq nth_append)

lemma count_update_report:
  "length (filter (\<lambda>s. s = UpdateReport) (background_body res fname)) = 1"
  by (simp add: background_body_def)

lemma finished_thread_stays:
  assumes "i < length (threads w)" and "threads w ! i = (ref, Analyzing)"
  shows "threads (background_process i outcome files w) ! i = (ref, Writing []) \<and>
     thread_step i outcome' files' (background_process i outcome files w) =
       background_process i outcome files w"
proof -
  have t: "threads (background_process i outcome files w) = (threads w)[i := (ref, Writing [])]"
    using assms by (simp add: background_process_Analyzing)
  then have "threads (background_process i outcome files w) ! i = (ref, Writing [])"
    using assms(1) by simp
  moreover have "i < length (threads (background_process i outcome files w))"
    using assms(1) t by simp
  ultimately show ?thesis by (simp add: thread_step_done)
qed

lemma example_analyzed:
  "heap (run [Created example_event example_now, Run 0 TimeoutExpired []] (init example_image)) =
     [example_report] \<and>
   threads (run [Created example_event example_now, Run 0 TimeoutExpired []] (init example_image)) =
     [(0, Writing (background_body
        (fst (process_heap_dump example_image ''/dump/web01_20240301.HPROF'' memory_limit
           TimeoutExpired []))
        ''web01_20240301.HPROF''))]"
  by (simp add: run_def example_world thread_step_Analyzing example_report_def)

lemma example_status_written:
  "heap (step (Run 0 TimeoutExpired [])
     (run [Created example_event example_now, Run 0 TimeoutExpired []] (init example_image))) =
     [example_report\<lparr>status := ''failed''\<rparr>]"
proof -
  let ?w = "run [Created example_event example_now, Run 0 TimeoutExpired []] (init example_image)"
  have "threads ?w ! 0 = (0, Writing (SetStatus ''failed'' #
      tl (background_body
        (fst (process_heap_dump example_image ''/dump/web01_20240301.HPROF'' memory_limit
           TimeoutExpired []))
        ''web01_20240301.HPROF'')))"
    by (simp add: example_analyzed background_body_def process_heap_dump_def Let_def)
  then have "thread_step 0 TimeoutExpired [] ?w =
      (exec_stmt 0 (SetStatus ''failed'') ?w)\<lparr>threads := (threads ?w)[0 := (0, Writing
        (tl (background_body
        (fst (process_heap_dump example_image ''/dump/web01_20240301.HPROF'' memory_limit
           TimeoutExpired []))
        ''web01_20240301.HPROF'')))]\<rparr>"
    by (intro thread_step_Writing) (simp_all add: example_analyzed)
  then show ?thesis by (simp add: example_analyzed)
qed

subsection \<open>The life of a report\<close>

text \<open>
  What holds of every report in every state that an interleaving of file events and
  thread steps reaches: it is \<open>processing\<close>, \<open>completed\<close> or \<open>failed\<close>, and any further
  step leaves its state unchanged or takes it from \<open>processing\<close> to \<open>completed\<close> or
  \<open>failed\<close>; a terminal state never changes, and neither do machine name, timestamp,
  filename and path.  The statements of a background thread hold the call of
  \<open>update_report\<close> once, and a thread that has run to its end does nothing more.
\<close>

lemma record_state_transitions:
  "(\<forall>ref. ref < length (heap (run acts (init img))) \<longrightarrow>
      (let r = deref (run acts (init img)) ref;
           r' = deref (step a (run acts (init img))) ref
       in (status r = ''processing'' \<or> terminal (status r)) \<and>
          (status r' = status r \<or> status r = ''processing'' \<and> terminal (status r')) \<and>
          (terminal (status r) \<longrightarrow> status r' = status r) \<and>
          machine_name r' = machine_name r \<and> timestamp r' = timestamp r \<and>
          filename r' = filename r \<and> file_path r' = file_path r)) \<and>
   length (filter (\<lambda>s. s = UpdateReport) (background_body res fname)) = 1 \<and>
   (i < length (threads w) \<and> threads w ! i = (ref0, Analyzing) \<longrightarrow>
      threads (background_process i outcome files w) ! i = (ref0, Writing []) \<and>
      thread_step i outcome' files' (background_process i outcome files w) =
        background_process i outcome files w)"
proof (intro conjI allI impI)
  fix ref
  assume r: "ref < length (heap (run acts (init img)))"
  let ?w = "run acts (init img)"
  have c: "consistent ?w" by (rule consistent_run)
  have s: "status (heap ?w ! ref) = ''processing'' \<or> terminal (status (heap ?w ! ref))"
    using c r by (rule consistent_status)
  have step: "(status (heap (step a ?w) ! ref) = status (heap ?w ! ref) \<or>
      status (heap ?w ! ref) = ''processing'' \<and> terminal (status (heap (step a ?w) ! ref))) \<and>
     machine_name (heap (step a ?w) ! ref) = machine_name (heap ?w ! ref) \<and>
     timestamp (heap (step a ?w) ! ref) = timestamp (heap ?w ! ref) \<and>
     filename (heap (step a ?w) ! ref) = filename (heap ?w ! ref) \<and>
     file_path (heap (step a ?w) ! ref) = file_path (heap ?w ! ref)"
  proof (cases a)
    case (Created ev now)
    then show ?thesis using r by (simp add: heap_on_created)
  next
    case (Run j outcome'' files'')
    then show ?thesis using heap_thread_step [OF c r, of j outcome'' files''] by simp
  qed
  show "let r = deref ?w ref; r' = deref (step a ?w) ref
       in (status r = ''processing'' \<or> terminal (status r)) \<and>
          (status r' = status r \<or> status r = ''processing'' \<and> terminal (status r')) \<and>
          (terminal (status r) \<longrightarrow> status r' = status r) \<and>
          machine_name r' = machine_name r \<and> timestamp r' = timestamp r \<and>
          filename r' = filename r \<and> file_path r' = file_path r"
    using s step processing_not_terminal by (auto simp: Let_def deref_def)
next
  show "length (filter (\<lambda>s. s = UpdateReport) (background_body res fname)) = 1"
    by (rule count_update_report)
next
  assume "i < length (threads w) \<and> threads w ! i = (ref0, Analyzing)"
  then show "threads (background_process i outcome files w) ! i = (ref0, Writing [])"
    using finished_thread_stays [of i w ref0 outcome files] by simp
next
  assume "i < length (threads w) \<and> threads w ! i = (ref0, Analyzing)"
  then show "thread_step i outcome' files' (background_process i outcome files w) =
        background_process i outcome files w"
    using finished_thread_stays [of i w ref0 outcome files outcome' files'] by simp
qed

lemma record_state_transitions_example:
  "0 < length (heap (run [Created example_event example_now, Run 0 TimeoutExpired []]
      (init example_image))) \<and>
   status (deref (run [Created example_event example_now, Run 0 TimeoutExpired []]
      (init example_image)) 0) = ''processing'' \<and>
   status (deref (step (Run 0 TimeoutExpired [])
     (run [Created example_event example_now, Run 0 TimeoutExpired []] (init example_image))) 0) =
     ''failed'' \<and>
   terminal ''failed'' \<and>
   threads (on_created example_event example_now (init example_image)) ! 0 = (0, Analyzing) \<and>
   thread_step 0 TimeoutExpired []
     (background_process 0 TimeoutExpired [] (on_created example_event example_now (init example_image))) =
   background_process 0 TimeoutExpired [] (on_created example_event example_now (init example_image))"
proof -
  have e0: "threads (on_created example_event example_now (init example_image)) ! 0 = (0, Analyzing)"
    and e1: "0 < length (threads (on_created example_event example_now (init example_image)))"
    by (simp_all add: example_world)
  have stay: "thread_step 0 TimeoutExpired []
     (background_process 0 TimeoutExpired [] (on_created example_event example_now (init example_image))) =
   background_process 0 TimeoutExpired [] (on_created example_event example_now (init example_image))"
    using e0 e1
      record_state_transitions [where i = 0 and ?ref0.0 = 0
        and w = "on_created example_event example_now (init example_image)"
        and outcome = TimeoutExpired and files = "[]" and outcome' = TimeoutExpired
        and files' = "[]"]
    by blast
  have a: "0 < length (heap (run [Created example_event example_now, Run 0 TimeoutExpired []]
      (init example_image)))"
    by (simp add: example_analyzed)
  have b: "status (deref (run [Created example_event example_now, Run 0 TimeoutExpired []]
      (init example_image)) 0) = ''processing''"
    by (simp add: deref_def example_analyzed example_report_def)
  have c: "status (deref (step (Run 0 TimeoutExpired [])
     (run [Created example_event example_now, Run 0 TimeoutExpired []] (init example_image))) 0) =
     ''failed''"
    unfolding deref_def example_status_written by simp
  have d: "terminal ''failed''" by (simp add: terminal_def)
  from a b c d e0 stay show ?thesis by (intro conjI)
qed

text \<open>
  Once its thread has run to its end, no step changes a report in any field.
\<close>

lemma finished_record_unchanged:
  assumes c: "consistent w" and r: "ref < length (heap w)"
    and fin: "snd (threads w ! ref) = Writing []"
  shows "heap (step a w) ! ref = heap w ! ref"
proof (cases a)
  case (Created ev now)
  then show ?thesis using r by (simp add: heap_on_created)
next
  case (Run j outcome files)
  show ?thesis
  proof (cases "j < length (threads w)")
    case False
    then show ?thesis using Run by (simp add: thread_step_def)
  next
    case True
    have len: "length (threads w) = length (heap w)" using c by (rule consistent_threads(1))
    have jl: "j < length (heap w)" using True len by simp
    have fj: "fst (threads w ! j) = j" using c jl by (rule consistent_threads(2))
    obtain st where tj: "threads w ! j = (j, st)" using fj by (cases "threads w ! j") simp
    show ?thesis
    proof (cases "j = ref")
      case True
      then have "threads w ! j = (j, Writing [])" using tj fin by simp
      then show ?thesis using Run \<open>j < length (threads w)\<close> by (simp add: thread_step_done)
    next
      case False
      show ?thesis
      proof (cases st)
        case Analyzing
        then show ?thesis using Run True tj by (simp add: thread_step_Analyzing)
      next
        case (Writing ss)
        show ?thesis
        proof (cases ss)
          case Nil
          then show ?thesis using Run True tj Writing by (simp add: thread_step_done)
        next
          case (Cons s rest)
          then have "heap (thread_step j outcome files w) = heap (exec_stmt j s w)"
            using True tj Writing by (simp add: thread_step_Writing)
          then show ?thesis using Run False by (simp add: heap_exec_stmt_other)
        qed
      qed
    qed
  qed
qed

text \<open>
  Along every execution the calls of \<open>update_report\<close> that a thread has made and those it
  still has before it add up to one: no thread makes a second call, and a thread that has
  run to its end has made exactly one, whatever \<open>process_heap_dump\<close> returned.
\<close>

lemma length_threads_thread_step [simp]:
  "length (threads (thread_step i outcome files w)) = length (threads w)"
proof (cases "i < length (threads w)")
  case False
  then show ?thesis by (simp add: thread_step_def)
next
  case True
  obtain ref st where t: "threads w ! i = (ref, st)" by (cases "threads w ! i")
  show ?thesis
  proof (cases st)
    case Analyzing
    then show ?thesis using True t by (simp add: thread_step_Analyzing)
  next
    case (Writing ss)
    then show ?thesis using True t
      by (cases ss) (simp_all add: thread_step_done thread_step_Writing)
  qed
qed

lemma pending_background_body [simp]:
  "pending_write_backs (Writing (background_body res fname)) = 1"
  by (simp add: background_body_def)

lemma write_back_step_thread:
  assumes "i < length (threads w)"
  shows "(if executes_update (Run j outcome files) w i then 1 else 0) +
      pending_write_backs (snd (threads (thread_step j outcome files w) ! i)) =
    pending_write_backs (snd (threads w ! i))"
proof (cases "j < length (threads w)")
  case False
  then show ?thesis by (simp add: thread_step_def)
next
  case True
  obtain ref st where t: "threads w ! j = (ref, st)" by (cases "threads w ! j")
  show ?thesis
  proof (cases st)
    case Analyzing
    then show ?thesis using True t assms
      by (cases "j = i") (simp_all add: thread_step_Analyzing count_update_report)
  next
    case (Writing ss)
    show ?thesis
    proof (cases ss)
      case Nil
      then show ?thesis using True t Writing by (simp add: thread_step_done)
    next
      case (Cons s rest)
      then show ?thesis using True t Writing assms
        by (cases "j = i") (simp_all add: thread_step_Writing)
    qed
  qed
qed

lemma write_back_step:
  assumes "i < length (threads (step a w))"
  shows "(if executes_update a w i then 1 else 0) +
      pending_write_backs (snd (threads (step a w) ! i)) =
    (if i < length (threads w) then pending_write_backs (snd (threads w ! i)) else 1)"
proof (cases a)
  case (Run j outcome files)
  then show ?thesis using assms write_back_step_thread [of i w j outcome files] by simp
next
  case (Created ev now)
  show ?thesis
  proof (cases "on_created ev now w = w")
    case True
    then show ?thesis using Created assms by simp
  next
    case False
    then have eq: "on_created ev now w = handler_process_heap_dump (src_path ev) now w"
      by (auto simp: on_created_def split: if_splits)
    show ?thesis
      using Created assms
      by (auto simp: eq handler_process_heap_dump_eq nth_append less_Suc_eq)
  qed
qed

lemma length_threads_step: "length (threads w) \<le> length (threads (step a w))"
proof (cases a)
  case (Run j outcome files)
  then show ?thesis by simp
next
  case (Created ev now)
  then show ?thesis
    by (auto simp: on_created_def handler_process_heap_dump_eq)
qed

lemma length_threads_fold: "length (threads w) \<le> length (threads (fold step acts w))"
proof (induction acts arbitrary: w)
  case Nil
  then show ?case by simp
next
  case (Cons a acts)
  have "length (threads w) \<le> length (threads (step a w))" by (rule length_threads_step)
  also have "\<dots> \<le> length (threads (fold step acts (step a w)))" by (rule Cons.IH)
  finally show ?case by simp
qed

lemma write_backs_balance:
  assumes "i < length (threads (run acts w))"
  shows "write_backs acts w i + pending_write_backs (snd (threads (run acts w) ! i)) =
    (if i < length (threads w) then pending_write_backs (snd (threads w ! i)) else 1)"
  using assms
proof (induction acts arbitrary: w)
  case Nil
  then show ?case by (simp add: run_def)
next
  case (Cons a acts)
  have r: "run (a # acts) w = run acts (step a w)" by (simp add: run_def)
  have i': "i < length (threads (run acts (step a w)))" using Cons.prems by (simp only: r)
  have ih: "write_backs acts (step a w) i +
      pending_write_backs (snd (threads (run acts (step a w)) ! i)) =
    (if i < length (threads (step a w))
     then pending_write_backs (snd (threads (step a w) ! i)) else 1)"
    using i' by (rule Cons.IH)
  show ?case
  proof (cases "i < length (threads (step a w))")
    case True
    have "(if executes_update a w i then 1 else 0) +
        pending_write_backs (snd (threads (step a w) ! i)) =
      (if i < length (threads w) then pending_write_backs (snd (threads w ! i)) else 1)"
      using True by (rule write_back_step)
    then show ?thesis using ih True by (simp add: r)
  next
    case False
    then have n: "\<not> i < length (threads w)"
      using length_threads_step [of w a] by simp
    have "\<not> executes_update a w i"
      using n by (cases a) auto
    then show ?thesis using ih False n by (simp add: r)
  qed
qed

lemma one_write_back_per_task:
  assumes "i < length (threads (run acts (init img)))"
  shows "write_backs acts (init img) i \<le> 1"
    and "snd (threads (run acts (init img)) ! i) = Writing [] \<Longrightarrow>
         write_backs acts (init img) i = 1"
proof -
  have b: "write_backs acts (init img) i +
      pending_write_backs (snd (threads (run acts (init img)) ! i)) = 1"
    using write_backs_balance [OF assms] by (simp add: init_def)
  then show "write_backs acts (init img) i \<le> 1" by simp
  show "write_backs acts (init img) i = 1"
    if "snd (threads (run acts (init img)) ! i) = Writing []"
    using b that by simp
qed

subsection \<open>The status summary\<close>





subsection \<open>The id of a submission and the same-second collision\<close>

text \<open>
  C4: a submission (\<open>_process_heap_dump\<close>) stores its report under the id
  \<open>machine_name + "_" + strftime('%Y%m%d_%H%M%S')\<close>, which is the year, month, day, an
  underscore, hour, minute and second in decimal digits, and leaves every other id as it
  was.  A second submission of the same machine name within the same second has the same
  id and rebinds it: the dictionary gets no new key, holds the id exactly once, and the id
  now refers to the second report.
\<close>

theorem submit_id_collision:
  assumes "distinct (map fst (reports w))"
    and "extract_machine_name (basename p1) = extract_machine_name (basename p2)"
    and "year t1 = year t2" and "month t1 = month t2" and "day t1 = day t2"
    and "hour t1 = hour t2" and "minute t1 = minute t2" and "second t1 = second t2"
  shows "(let w1 = handler_process_heap_dump p1 t1 w;
              w2 = handler_process_heap_dump p2 t2 w1;
              rid = extract_machine_name (basename p1) @ ''_'' @ strftime_Ymd_HMS t1
          in report_id (initial_report p1 t1) = rid \<and>
             get_report_by_id rid w1 = Some (length (heap w)) \<and>
             deref w1 (length (heap w)) = initial_report p1 t1 \<and>
             (\<forall>k. k \<noteq> rid \<longrightarrow> get_report_by_id k w1 = get_report_by_id k w) \<and>
             get_report_by_id rid w2 = Some (Suc (length (heap w))) \<and>
             deref w2 (Suc (length (heap w))) = initial_report p2 t2 \<and>
             map fst (reports w2) = map fst (reports w1) \<and>
             distinct (map fst (reports w2)) \<and>
             length (filter (\<lambda>k. k = rid) (map fst (reports w2))) = 1) \<and>
         (1000 \<le> year t1 \<and> year t1 \<le> 9999 \<and> month t1 < 100 \<and> day t1 < 100 \<and>
          hour t1 < 100 \<and> minute t1 < 100 \<and> second t1 < 100 \<longrightarrow>
          strftime_Ymd_HMS t1 =
            [digit_char (year t1 div 1000), digit_char (year t1 div 100),
             digit_char (year t1 div 10), digit_char (year t1),
             digit_char (month t1 div 10), digit_char (month t1),
             digit_char (day t1 div 10), digit_char (day t1),
             CHR ''_'',
             digit_char (hour t1 div 10), digit_char (hour t1),
             digit_char (minute t1 div 10), digit_char (minute t1),
             digit_char (second t1 div 10), digit_char (second t1)])"
proof -
  let ?rid = "extract_machine_name (basename p1) @ ''_'' @ strftime_Ymd_HMS t1"
  let ?w1 = "handler_process_heap_dump p1 t1 w"
  let ?w2 = "handler_process_heap_dump p2 t2 ?w1"
  have id1: "report_id (initial_report p1 t1) = ?rid"
    by (simp add: report_id_def initial_report_def)
  have id2: "report_id (initial_report p2 t2) = ?rid"
    using assms strftime_same_second [of t1 t2]
    by (simp add: report_id_def initial_report_def)
  have r1: "reports ?w1 = AList.update ?rid (length (heap w)) (reports w)"
    by (simp add: handler_process_heap_dump_eq id1)
  have r2: "reports ?w2 = AList.update ?rid (Suc (length (heap w))) (reports ?w1)"
    by (simp add: handler_process_heap_dump_eq id2)
  have in1: "?rid \<in> set (map fst (reports ?w1))"
    by (simp add: r1 AList.update_keys)
  have keys: "map fst (reports ?w2) = map fst (reports ?w1)"
    using in1 by (simp only: r2 AList.update_keys if_True)
  have d1: "distinct (map fst (reports ?w1))"
    using assms(1) by (simp only: r1 distinct_update)
  have d2: "distinct (map fst (reports ?w2))"
    using d1 by (simp only: keys)
  have one: "length (filter (\<lambda>k. k = ?rid) (map fst (reports ?w2))) = 1"
    using d2 in1 keys by (simp only: distinct_filter_one)
  have g1: "get_report_by_id ?rid ?w1 = Some (length (heap w))"
    by (simp add: get_report_by_id_def r1 update_conv')
  have g1': "\<forall>k. k \<noteq> ?rid \<longrightarrow> get_report_by_id k ?w1 = get_report_by_id k w"
    by (simp add: get_report_by_id_def r1 update_conv')
  have g2: "get_report_by_id ?rid ?w2 = Some (Suc (length (heap w)))"
    by (simp add: get_report_by_id_def r2 update_conv')
  have h1: "deref ?w1 (length (heap w)) = initial_report p1 t1"
    by (simp add: deref_def handler_process_heap_dump_eq)
  have h2: "deref ?w2 (Suc (length (heap w))) = initial_report p2 t2"
    by (simp add: deref_def handler_process_heap_dump_eq nth_append)
  have fmt: "1000 \<le> year t1 \<and> year t1 \<le> 9999 \<and> month t1 < 100 \<and> day t1 < 100 \<and>
          hour t1 < 100 \<and> minute t1 < 100 \<and> second t1 < 100 \<longrightarrow>
          strftime_Ymd_HMS t1 =
            [digit_char (year t1 div 1000), digit_char (year t1 div 100),
             digit_char (year t1 div 10), digit_char (year t1),
             digit_char (month t1 div 10), digit_char (month t1),
             digit_char (day t1 div 10), digit_char (day t1),
             CHR ''_'',
             digit_char (hour t1 div 10), digit_char (hour t1),
             digit_char (minute t1 div 10), digit_char (minute t1),
             digit_char (second t1 div 10), digit_char (second t1)]"
    using strftime_layout [of t1] by blast
  from id1 g1 h1 g1' g2 h2 keys d2 one fmt show ?thesis
    unfolding Let_def by (intro conjI)
qed

theorem submit_id_collision_witness:
  "extract_machine_name (basename ''/dump/web01_20240301.HPROF'') =
     extract_machine_name (basename second_path) \<and>
   second example_now = second second_now \<and>
   get_report_by_id ''web01_20240301_090559''
     (handler_process_heap_dump second_path second_now
       (handler_process_heap_dump ''/dump/web01_20240301.HPROF'' example_now (init example_image)))
     = Some 1 \<and>
   map fst (reports
     (handler_process_heap_dump second_path second_now
       (handler_process_heap_dump ''/dump/web01_20240301.HPROF'' example_now (init example_image))))
     = [''web01_20240301_090559''] \<and>
   file_path (deref
     (handler_process_heap_dump second_path second_now
       (handler_process_heap_dump ''/dump/web01_20240301.HPROF'' example_now (init example_image))) 1)
     = second_path"
proof -
  have k1: "map fst (reports (handler_process_heap_dump ''/dump/web01_20240301.HPROF''
      example_now (init example_image))) = [''web01_20240301_090559'']"
    by (simp add: handler_process_heap_dump_eq report_id_def initial_report_def machine_example
        strftime_example init_def)
  have t: "year example_now = year second_now \<and> month example_now = month second_now \<and>
      day example_now = day second_now \<and> hour example_now = hour second_now \<and>
      minute example_now = minute second_now \<and> second example_now = second second_now"
    by (simp add: second_now_def)
  show ?thesis
    using submit_id_collision [where w = "init example_image"
        and ?p1.0 = "''/dump/web01_20240301.HPROF''" and ?p2.0 = second_path
        and ?t1.0 = example_now and ?t2.0 = second_now] k1 t
    by (simp add: machine_example machine_second strftime_example init_def Let_def
        initial_report_def)
qed

subsection \<open>The timeout of the Analyzer\<close>

text \<open>
  C5: the specification names the message \<open>processing timeout exceeded\<close>; the message of the source
  is another string.
\<close>

theorem timeout_message_counterexample:
  "res_error_message (fst (process_heap_dump example_image ''/dump/web01_20240301.HPROF''
      memory_limit TimeoutExpired [])) \<noteq> Some ''processing timeout exceeded''"
  by (simp add: process_heap_dump_def Let_def)

text \<open>
  C5 (amended): when the Analyzer invocation exceeds the one-hour timeout,
  \<open>process_heap_dump\<close> returns status \<open>failed\<close> with the fixed error message
  \<open>Processing timeout (1 hour exceeded)\<close> and processing time 3600, whatever the image,
  the path, the memory limit and the files on disk; and the background thread that was
  waiting for the Analyzer leaves exactly these values in its report, with no artifact.
\<close>

theorem timeout_marks_failed:
  assumes "i < length (threads w)" and "threads w ! i = (ref, Analyzing)"
    and "ref < length (heap w)"
  shows "fst (process_heap_dump img path mem TimeoutExpired files) =
           \<lparr>res_status = ''failed'', res_suspects_report = None, res_overview_report = None,
            res_error_message = Some ''Processing timeout (1 hour exceeded)'',
            res_processing_time = Some 3600\<rparr> \<and>
         deref (background_process i TimeoutExpired files w) ref =
           (heap w ! ref)\<lparr>status := ''failed'', suspects_report := None, overview_report := None,
             error_message := Some ''Processing timeout (1 hour exceeded)'',
             processing_time := Some 3600\<rparr>"
proof -
  have res: "fst (process_heap_dump img path mem TimeoutExpired files) =
           \<lparr>res_status = ''failed'', res_suspects_report = None, res_overview_report = None,
            res_error_message = Some ''Processing timeout (1 hour exceeded)'',
            res_processing_time = Some 3600\<rparr>" for img path mem
    by (simp add: process_heap_dump_def Let_def)
  have "heap (background_process i TimeoutExpired files w) ! ref =
           (heap w ! ref)\<lparr>status := ''failed'', suspects_report := None, overview_report := None,
             error_message := Some ''Processing timeout (1 hour exceeded)'',
             processing_time := Some 3600\<rparr>"
    using assms by (simp add: background_process_Analyzing heap_after_body res)
  with res show ?thesis by (simp add: deref_def)
qed

theorem timeout_marks_failed_witness:
  "threads (on_created example_event example_now (init example_image)) ! 0 = (0, Analyzing) \<and>
   deref (background_process 0 TimeoutExpired []
      (on_created example_event example_now (init example_image))) 0 =
   example_report\<lparr>status := ''failed'',
     error_message := Some ''Processing timeout (1 hour exceeded)'',
     processing_time := Some 3600\<rparr>"
  using timeout_marks_failed [of 0 "on_created example_event example_now (init example_image)" 0
      example_image "''/dump/web01_20240301.HPROF''" memory_limit "[]"]
  by (simp add: example_world example_report_def)

subsection \<open>A successful run of the Analyzer\<close>

lemma derived_paths_shape:
  assumes "d \<noteq> []" and "last d \<noteq> CHR ''/''" and "n \<noteq> []" and "hd n \<noteq> CHR ''.''"
    and "CHR ''/'' \<notin> set n" and "CHR ''/'' \<notin> set e" and "CHR ''.'' \<notin> set e"
  shows "derived_suspects_path (d @ ''/'' @ n @ ''.'' @ e) = d @ ''/'' @ n @ ''_Leak_Suspects.html''"
    and "derived_overview_path (d @ ''/'' @ n @ ''.'' @ e) = d @ ''/'' @ n @ ''_System_Overview.html''"
proof -
  have noslash: "CHR ''/'' \<notin> set (n @ CHR ''.'' # e)" using assms by simp
  have b: "basename (d @ CHR ''/'' # n @ CHR ''.'' # e) = n @ CHR ''.'' # e"
    using noslash by (rule basename_after_slash)
  have dn: "dirname (d @ CHR ''/'' # n @ CHR ''.'' # e) = d"
    using noslash assms(1,2) by (rule dirname_after_slash)
  have sp: "fst (splitext (n @ CHR ''.'' # e)) = n"
    using assms by (simp add: splitext_stem)
  have hd1: "hd (n @ s) \<noteq> CHR ''/''" for s
    using assms(3,5) by (cases n) auto
  show "derived_suspects_path (d @ ''/'' @ n @ ''.'' @ e) = d @ ''/'' @ n @ ''_Leak_Suspects.html''"
    using assms(1,2,3) hd1 [of "''_Leak_Suspects.html''"]
    by (simp add: derived_suspects_path_def b dn sp join_dir)
  show "derived_overview_path (d @ ''/'' @ n @ ''.'' @ e) = d @ ''/'' @ n @ ''_System_Overview.html''"
    using assms(1,2,3) hd1 [of "''_System_Overview.html''"]
    by (simp add: derived_overview_path_def b dn sp join_dir)
qed

lemma process_heap_dump_zero_exit:
  "fst (process_heap_dump img path mem (CompletedProcess 0 err t) files) =
     \<lparr>res_status = ''completed'',
      res_suspects_report =
        (if derived_suspects_path path \<in> set files then Some (derived_suspects_path path) else None),
      res_overview_report =
        (if derived_overview_path path \<in> set files then Some (derived_overview_path path) else None),
      res_error_message = None,
      res_processing_time = Some t\<rparr>"
  by (simp add: process_heap_dump_def Let_def derived_suspects_path_def derived_overview_path_def)

text \<open>
  C6: for every invocation with zero exit status, the background thread leaves its report
  \<open>completed\<close>, with the elapsed time, no error message, and as artifacts exactly those of
  the two derived paths that exist on disk (so every recorded artifact exists, and with
  neither file on disk the report is \<open>completed\<close> with no artifact); the other fields of
  the report are unchanged.  For a source file \<open>d/n.e\<close> the derived paths are
  \<open>d/n_Leak_Suspects.html\<close> and \<open>d/n_System_Overview.html\<close>.
\<close>

theorem zero_exit_completed:
  assumes "i < length (threads w)" and "threads w ! i = (ref, Analyzing)"
    and "ref < length (heap w)"
  shows "(let path = file_path (heap w ! ref);
              r = deref (background_process i (CompletedProcess 0 err t) files w) ref
          in r = (heap w ! ref)\<lparr>status := ''completed'',
                   suspects_report :=
                     (if derived_suspects_path path \<in> set files
                      then Some (derived_suspects_path path) else None),
                   overview_report :=
                     (if derived_overview_path path \<in> set files
                      then Some (derived_overview_path path) else None),
                   error_message := None,
                   processing_time := Some t\<rparr> \<and>
             (\<forall>p. suspects_report r = Some p \<or> overview_report r = Some p \<longrightarrow> p \<in> set files)) \<and>
         (d \<noteq> [] \<and> last d \<noteq> CHR ''/'' \<and> n \<noteq> [] \<and> hd n \<noteq> CHR ''.'' \<and>
          CHR ''/'' \<notin> set n \<and> CHR ''/'' \<notin> set e \<and> CHR ''.'' \<notin> set e \<longrightarrow>
          derived_suspects_path (d @ ''/'' @ n @ ''.'' @ e) = d @ ''/'' @ n @ ''_Leak_Suspects.html'' \<and>
          derived_overview_path (d @ ''/'' @ n @ ''.'' @ e) = d @ ''/'' @ n @ ''_System_Overview.html'')"
proof -
  have "heap (background_process i (CompletedProcess 0 err t) files w) ! ref =
      (heap w ! ref)\<lparr>status := ''completed'',
        suspects_report :=
          (if derived_suspects_path (file_path (heap w ! ref)) \<in> set files
           then Some (derived_suspects_path (file_path (heap w ! ref))) else None),
        overview_report :=
          (if derived_overview_path (file_path (heap w ! ref)) \<in> set files
           then Some (derived_overview_path (file_path (heap w ! ref))) else None),
        error_message := None, processing_time := Some t\<rparr>"
    using assms
    by (simp add: background_process_Analyzing heap_after_body process_heap_dump_zero_exit)
  then have first: "(let path = file_path (heap w ! ref);
              r = deref (background_process i (CompletedProcess 0 err t) files w) ref
          in r = (heap w ! ref)\<lparr>status := ''completed'',
                   suspects_report :=
                     (if derived_suspects_path path \<in> set files
                      then Some (derived_suspects_path path) else None),
                   overview_report :=
                     (if derived_overview_path path \<in> set files
                      then Some (derived_overview_path path) else None),
                   error_message := None,
                   processing_time := Some t\<rparr> \<and>
             (\<forall>p. suspects_report r = Some p \<or> overview_report r = Some p \<longrightarrow> p \<in> set files))"
    by (auto simp: Let_def deref_def)
  show ?thesis
    using first derived_paths_shape [of d n e] by blast
qed

theorem zero_exit_completed_witness:
  "threads (on_created example_event example_now (init example_image)) ! 0 = (0, Analyzing) \<and>
   deref (background_process 0 (CompletedProcess 0 [] 42)
      [''/dump/web01_20240301_System_Overview.html'']
      (on_created example_event example_now (init example_image))) 0 =
   example_report\<lparr>status := ''completed'',
     overview_report := Some ''/dump/web01_20240301_System_Overview.html'',
     processing_time := Some 42\<rparr> \<and>
   deref (background_process 0 (CompletedProcess 0 [] 42) []
      (on_created example_event example_now (init example_image))) 0 =
   example_report\<lparr>status := ''completed'', processing_time := Some 42\<rparr>"
proof -
  have p: "derived_suspects_path ''/dump/web01_20240301.HPROF'' = ''/dump/web01_20240301_Leak_Suspects.html'' \<and>
        derived_overview_path ''/dump/web01_20240301.HPROF'' = ''/dump/web01_20240301_System_Overview.html''"
    using zero_exit_completed [where i = 0 and ref = 0 and err = "[]" and t = 42
        and w = "on_created example_event example_now (init example_image)"
        and d = "''/dump''" and n = "''web01_20240301''" and e = "''HPROF''"
        and files = "[]"]
    by (simp add: example_world example_report_def)
  show ?thesis
    using zero_exit_completed [where i = 0 and ref = 0 and err = "[]" and t = 42
        and w = "on_created example_event example_now (init example_image)"
        and d = "''/dump''" and n = "''web01_20240301''" and e = "''HPROF''"
        and files = "[''/dump/web01_20240301_System_Overview.html'']"]
      zero_exit_completed [where i = 0 and ref = 0 and err = "[]" and t = 42
        and w = "on_created example_event example_now (init example_image)"
        and d = "''/dump''" and n = "''web01_20240301''" and e = "''HPROF''"
        and files = "[]"]
    by (simp add: example_world example_report_def p Let_def)
qed

subsection \<open>Readers and the writes of a background thread\<close>

lemma example_derived_paths:
  "derived_suspects_path ''/dump/web01_20240301.HPROF'' = ''/dump/web01_20240301_Leak_Suspects.html'' \<and>
   derived_overview_path ''/dump/web01_20240301.HPROF'' = ''/dump/web01_20240301_System_Overview.html''"
  using derived_paths_shape [of "''/dump''" "''web01_20240301''" "''HPROF''"] by simp

lemma example_success_result:
  "fst (process_heap_dump example_image ''/dump/web01_20240301.HPROF'' memory_limit
      example_success example_files) =
    \<lparr>res_status = ''completed'',
     res_suspects_report = Some ''/dump/web01_20240301_Leak_Suspects.html'',
     res_overview_report = Some ''/dump/web01_20240301_System_Overview.html'',
     res_error_message = None,
     res_processing_time = Some 42\<rparr>"
  by (simp add: example_success_def process_heap_dump_zero_exit example_derived_paths
      example_files_def)

lemma example_success_analyzed:
  "heap (run [Created example_event example_now, Run 0 example_success example_files]
      (init example_image)) = [example_report] \<and>
   reports (run [Created example_event example_now, Run 0 example_success example_files]
      (init example_image)) = [(''web01_20240301_090559'', 0)] \<and>
   threads (run [Created example_event example_now, Run 0 example_success example_files]
      (init example_image)) =
     [(0, Writing
        [SetStatus ''completed'',
         SetSuspects (Some ''/dump/web01_20240301_Leak_Suspects.html''),
         SetOverview (Some ''/dump/web01_20240301_System_Overview.html''),
         SetError None,
         SetTime (Some 42),
         UpdateReport,
         Log (INFO, [Str ''Successfully processed web01_20240301.HPROF in '', Float2f 42,
                     Str ''s''])])]"
  by (simp add: run_def example_world thread_step_Analyzing example_report_def
      example_success_result background_body_def)

lemma example_success_half:
  "heap (run [Created example_event example_now, Run 0 example_success example_files,
        Run 0 example_success example_files] (init example_image)) =
     [example_report\<lparr>status := ''completed''\<rparr>] \<and>
   reports (run [Created example_event example_now, Run 0 example_success example_files,
        Run 0 example_success example_files] (init example_image)) =
     [(''web01_20240301_090559'', 0)] \<and>
   threads (run [Created example_event example_now, Run 0 example_success example_files,
        Run 0 example_success example_files] (init example_image)) =
     [(0, Writing
        [SetSuspects (Some ''/dump/web01_20240301_Leak_Suspects.html''),
         SetOverview (Some ''/dump/web01_20240301_System_Overview.html''),
         SetError None,
         SetTime (Some 42),
         UpdateReport,
         Log (INFO, [Str ''Successfully processed web01_20240301.HPROF in '', Float2f 42,
                     Str ''s''])])]"
proof -
  let ?w = "run [Created example_event example_now, Run 0 example_success example_files]
      (init example_image)"
  have split: "run [Created example_event example_now, Run 0 example_success example_files,
        Run 0 example_success example_files] (init example_image) =
      thread_step 0 example_success example_files ?w"
    by (simp add: run_def)
  have "thread_step 0 example_success example_files ?w =
      (exec_stmt 0 (SetStatus ''completed'') ?w)\<lparr>threads := (threads ?w)[0 := (0, Writing
        [SetSuspects (Some ''/dump/web01_20240301_Leak_Suspects.html''),
         SetOverview (Some ''/dump/web01_20240301_System_Overview.html''),
         SetError None,
         SetTime (Some 42),
         UpdateReport,
         Log (INFO, [Str ''Successfully processed web01_20240301.HPROF in '', Float2f 42,
                     Str ''s''])])]\<rparr>"
    by (intro thread_step_Writing) (simp_all add: example_success_analyzed)
  then show ?thesis
    unfolding split by (simp add: example_success_analyzed)
qed

lemma example_success_done:
  "heap (background_process 0 example_success example_files
      (run [Created example_event example_now] (init example_image))) =
     [example_report\<lparr>status := ''completed'',
        suspects_report := Some ''/dump/web01_20240301_Leak_Suspects.html'',
        overview_report := Some ''/dump/web01_20240301_System_Overview.html'',
        processing_time := Some 42\<rparr>]"
  by (simp add: run_def example_world background_process_Analyzing heap_after_body
      example_success_result example_report_def)

text \<open>
  C1 does not hold of the code.  The methods of \<open>ReportManager\<close> run under the lock, but
  the dictionary holds the very object that the background thread then assigns to, field
  by field and outside the lock, before it calls \<open>update_report\<close>; and the list that
  \<open>get_all_reports\<close> returns is a new list of the same objects.  In the execution below a
  file is detected, the Analyzer succeeds with both reports on disk, and the thread has
  executed \<open>report.status = result['status']\<close> and nothing more.  A reader that calls
  \<open>get_all_reports\<close> now finds the report \<open>completed\<close> with no artifact and no
  processing time: neither the record that was inserted nor the one that is written back,
  while \<open>update_report\<close> is still to be called.  The list \<open>[0]\<close> that a reader obtained
  right after the insertion denotes three different records in the three states.
\<close>

theorem reader_observes_partial_update:
  "get_all_reports (run [Created example_event example_now] (init example_image)) = [0] \<and>
   map (deref (run [Created example_event example_now] (init example_image))) [0] =
     [example_report] \<and>
   get_all_reports (run [Created example_event example_now, Run 0 example_success example_files,
        Run 0 example_success example_files] (init example_image)) = [0] \<and>
   map (deref (run [Created example_event example_now, Run 0 example_success example_files,
        Run 0 example_success example_files] (init example_image))) [0] =
     [example_report\<lparr>status := ''completed''\<rparr>] \<and>
   UpdateReport \<in> set (case snd (threads (run [Created example_event example_now,
        Run 0 example_success example_files, Run 0 example_success example_files]
        (init example_image)) ! 0) of Analyzing \<Rightarrow> [] | Writing ss \<Rightarrow> ss) \<and>
   map (deref (background_process 0 example_success example_files
      (run [Created example_event example_now] (init example_image)))) [0] =
     [example_report\<lparr>status := ''completed'',
        suspects_report := Some ''/dump/web01_20240301_Leak_Suspects.html'',
        overview_report := Some ''/dump/web01_20240301_System_Overview.html'',
        processing_time := Some 42\<rparr>]"
proof -
  have a: "run [Created example_event example_now] (init example_image) =
      on_created example_event example_now (init example_image)"
    by (simp add: run_def)
  have b: "get_all_reports (run [Created example_event example_now] (init example_image)) = [0]"
    "map (deref (run [Created example_event example_now] (init example_image))) [0] =
     [example_report]"
    by (simp_all add: a example_world get_all_reports_def deref_def)
  have c: "get_all_reports (run [Created example_event example_now,
        Run 0 example_success example_files, Run 0 example_success example_files]
        (init example_image)) = [0]"
    "map (deref (run [Created example_event example_now, Run 0 example_success example_files,
        Run 0 example_success example_files] (init example_image))) [0] =
     [example_report\<lparr>status := ''completed''\<rparr>]"
    "UpdateReport \<in> set (case snd (threads (run [Created example_event example_now,
        Run 0 example_success example_files, Run 0 example_success example_files]
        (init example_image)) ! 0) of Analyzing \<Rightarrow> [] | Writing ss \<Rightarrow> ss)"
    by (simp_all add: example_success_half get_all_reports_def deref_def)
  have d: "map (deref (background_process 0 example_success example_files
      (run [Created example_event example_now] (init example_image)))) [0] =
     [example_report\<lparr>status := ''completed'',
        suspects_report := Some ''/dump/web01_20240301_Leak_Suspects.html'',
        overview_report := Some ''/dump/web01_20240301_System_Overview.html'',
        processing_time := Some 42\<rparr>]"
    by (simp add: deref_def example_success_done)
  from b c d show ?thesis by (intro conjI)
qed

subsection \<open>Write-backs after a collision of ids\<close>

text \<open>
  Two files of one machine are detected within one second and both threads finish.  The
  dictionary has one entry for their common id all along; each \<open>update_report\<close> rebinds
  it to the report of the thread that calls it, so the entry refers to the second report
  (\<open>processing\<close>), then to the first (\<open>completed\<close>), then to the second again
  (\<open>failed\<close>).  Each of the two reports changes its state once.
\<close>

lemma reports_after_body:
  "ref < length (heap w) \<Longrightarrow>
   reports (fold (exec_stmt ref) (background_body res fname) w) =
     (if report_id (heap w ! ref) \<in> fst ` set (reports w)
      then AList.update (report_id (heap w ! ref)) ref (reports w)
      else reports w)"
  by (simp add: background_body_def update_report_cases report_id_def)

lemma colliding_world:
  "handler_process_heap_dump second_path second_now
     (handler_process_heap_dump ''/dump/web01_20240301.HPROF'' example_now (init example_image)) =
   \<lparr>docker_image = example_image,
    heap = [example_report, initial_report second_path second_now],
    reports = [(''web01_20240301_090559'', 1)],
    logged = [(INFO, [Str ''Started processing heap dump: web01_20240301.HPROF'']),
              (INFO, [Str (''Started processing heap dump: '' @ basename second_path)])],
    threads = [(0, Analyzing), (1, Analyzing)]\<rparr>"
  by (simp add: handler_process_heap_dump_eq report_id_def initial_report_def machine_example
      machine_second strftime_example strftime_second init_def basename_example
      extract_example example_report_def)

lemma collision_rebinds_entry:
  "(let w2 = handler_process_heap_dump second_path second_now
        (handler_process_heap_dump ''/dump/web01_20240301.HPROF'' example_now (init example_image));
        w3 = background_process 0 example_success example_files w2;
        w4 = background_process 1 TimeoutExpired [] w3
    in get_report_by_id ''web01_20240301_090559'' w2 = Some 1 \<and>
       status (deref w2 1) = ''processing'' \<and>
       get_report_by_id ''web01_20240301_090559'' w3 = Some 0 \<and>
       status (deref w3 0) = ''completed'' \<and>
       get_report_by_id ''web01_20240301_090559'' w4 = Some 1 \<and>
       status (deref w4 1) = ''failed'')"
proof -
  let ?w2 = "handler_process_heap_dump second_path second_now
        (handler_process_heap_dump ''/dump/web01_20240301.HPROF'' example_now (init example_image))"
  let ?w3 = "background_process 0 example_success example_files ?w2"
  let ?w4 = "background_process 1 TimeoutExpired [] ?w3"
  have id0: "report_id example_report = ''web01_20240301_090559''"
    by (rule report_id_example)
  have id1: "report_id (initial_report second_path second_now) = ''web01_20240301_090559''"
    by (simp add: report_id_def initial_report_def machine_second strftime_second)
  have w2: "get_report_by_id ''web01_20240301_090559'' ?w2 = Some 1"
    "status (deref ?w2 1) = ''processing''"
    by (simp_all add: colliding_world get_report_by_id_def deref_def initial_report_def)
  have h3: "heap ?w3 = [example_report\<lparr>status := ''completed'',
        suspects_report := Some ''/dump/web01_20240301_Leak_Suspects.html'',
        overview_report := Some ''/dump/web01_20240301_System_Overview.html'',
        processing_time := Some 42\<rparr>, initial_report second_path second_now]"
    by (simp add: colliding_world background_process_Analyzing heap_after_body
        example_success_result example_report_def)
  have r3: "reports ?w3 = [(''web01_20240301_090559'', 0)]"
    by (simp add: colliding_world background_process_Analyzing reports_after_body id0
        del: fold_simps)
  have t3: "threads ?w3 = [(0, Writing []), (1, Analyzing)]"
    by (simp add: colliding_world background_process_Analyzing)
  have w3: "get_report_by_id ''web01_20240301_090559'' ?w3 = Some 0"
    "status (deref ?w3 0) = ''completed''"
    by (simp_all add: get_report_by_id_def deref_def r3 h3)
  have a4: "1 < length (threads ?w3)" "threads ?w3 ! 1 = (1, Analyzing)" "1 < length (heap ?w3)"
    by (simp_all add: t3 h3)
  have rid4: "report_id (heap ?w3 ! Suc 0) = ''web01_20240301_090559''"
    by (simp add: h3 id1)
  have h4: "status (heap ?w4 ! 1) = ''failed''"
    using a4 by (simp add: background_process_Analyzing heap_after_body process_heap_dump_def
        Let_def)
  have r4: "reports ?w4 = [(''web01_20240301_090559'', 1)]"
    using a4 by (simp add: background_process_Analyzing reports_after_body rid4 r3
        del: fold_simps)
  have w4a: "get_report_by_id ''web01_20240301_090559'' ?w4 = Some 1"
    unfolding get_report_by_id_def r4 by simp
  have w4b: "status (deref ?w4 1) = ''failed''"
    unfolding deref_def by (rule h4)
  note w4 = w4a w4b
  from w2 w3 w4 show ?thesis unfolding Let_def by (intro conjI)
qed

subsection \<open>A terminal record that still changes\<close>

lemma example_success_next:
  "heap (step (Run 0 example_success example_files)
     (run [Created example_event example_now, Run 0 example_success example_files,
        Run 0 example_success example_files] (init example_image))) =
     [example_report\<lparr>status := ''completed'',
        suspects_report := Some ''/dump/web01_20240301_Leak_Suspects.html''\<rparr>]"
proof -
  let ?w = "run [Created example_event example_now, Run 0 example_success example_files,
        Run 0 example_success example_files] (init example_image)"
  have "thread_step 0 example_success example_files ?w =
      (exec_stmt 0 (SetSuspects (Some ''/dump/web01_20240301_Leak_Suspects.html'')) ?w)
        \<lparr>threads := (threads ?w)[0 := (0, Writing
        [SetOverview (Some ''/dump/web01_20240301_System_Overview.html''),
         SetError None,
         SetTime (Some 42),
         UpdateReport,
         Log (INFO, [Str ''Successfully processed web01_20240301.HPROF in '', Float2f 42,
                     Str ''s''])])]\<rparr>"
    by (intro thread_step_Writing) (simp_all add: example_success_half)
  then show ?thesis by (simp add: example_success_half)
qed

text \<open>
  C3 does not hold of the code: a record that is in a terminal state does change again.
  \<open>_background_process\<close> assigns \<open>status\<close> first and the four other fields of the result
  after it, one at a time, to the report object that the dictionary already holds, and
  only then calls \<open>update_report\<close>.  In the execution below the Analyzer has succeeded
  with both reports on disk and the thread has assigned \<open>status\<close>: the record is
  \<open>completed\<close> and has no suspects report.  The next step of the thread changes this
  terminal record: it now has the suspects report.  The other parts of C3 hold, as shown
  above: the state of a record only moves from \<open>processing\<close> to \<open>completed\<close> or
  \<open>failed\<close> and never leaves a terminal state, a record whose thread has run to its end
  never changes, and every thread calls \<open>update_report\<close> exactly once.
\<close>

theorem terminal_record_still_changes:
  "status (deref (run [Created example_event example_now, Run 0 example_success example_files,
        Run 0 example_success example_files] (init example_image)) 0) = ''completed'' \<and>
   terminal (status (deref (run [Created example_event example_now,
        Run 0 example_success example_files, Run 0 example_success example_files]
        (init example_image)) 0)) \<and>
   suspects_report (deref (run [Created example_event example_now,
        Run 0 example_success example_files, Run 0 example_success example_files]
        (init example_image)) 0) = None \<and>
   suspects_report (deref (step (Run 0 example_success example_files)
     (run [Created example_event example_now, Run 0 example_success example_files,
        Run 0 example_success example_files] (init example_image))) 0) =
     Some ''/dump/web01_20240301_Leak_Suspects.html'' \<and>
   deref (step (Run 0 example_success example_files)
     (run [Created example_event example_now, Run 0 example_success example_files,
        Run 0 example_success example_files] (init example_image))) 0 \<noteq>
   deref (run [Created example_event example_now, Run 0 example_success example_files,
        Run 0 example_success example_files] (init example_image)) 0"
proof -
  have a: "deref (run [Created example_event example_now, Run 0 example_success example_files,
        Run 0 example_success example_files] (init example_image)) 0 =
      example_report\<lparr>status := ''completed''\<rparr>"
    by (simp add: deref_def example_success_half)
  have b: "deref (step (Run 0 example_success example_files)
     (run [Created example_event example_now, Run 0 example_success example_files,
        Run 0 example_success example_files] (init example_image))) 0 =
      example_report\<lparr>status := ''completed'',
        suspects_report := Some ''/dump/web01_20240301_Leak_Suspects.html''\<rparr>"
    unfolding deref_def example_success_next by simp
  show ?thesis
    unfolding a b by (simp add: terminal_def example_report_def)
qed

subsection \<open>update\_report\<close>

text \<open>
  C7: the specification has a warning logged when the id of the report is not in the dictionary.
  \<open>update_report\<close> logs nothing: below, the log after the call holds the one \<open>INFO\<close>
  record it held before.
\<close>

theorem update_unknown_id_counterexample:
  "update_report 0 orphan_world = orphan_world \<and>
   logged (update_report 0 orphan_world) =
     [(INFO, [Str ''Started processing heap dump: web01_20240301.HPROF''])] \<and>
   WARNING \<notin> fst ` set (logged (update_report 0 orphan_world))"
  by (simp add: update_report_cases orphan_world_def)

text \<open>
  C7 (amended): \<open>update_report\<close> rebinds the id of the report only if the dictionary
  already has that id, and then changes no other entry and no key; otherwise the state is
  unchanged, so the result is discarded silently.  In both cases nothing is logged, and
  the function has no failing branch.
\<close>

theorem update_report_existing_only:
  "(report_id (heap w ! ref) \<notin> fst ` set (reports w) \<longrightarrow> update_report ref w = w) \<and>
   (report_id (heap w ! ref) \<in> fst ` set (reports w) \<longrightarrow>
      map_of (reports (update_report ref w)) (report_id (heap w ! ref)) = Some ref \<and>
      (\<forall>k. k \<noteq> report_id (heap w ! ref) \<longrightarrow>
         map_of (reports (update_report ref w)) k = map_of (reports w) k) \<and>
      map fst (reports (update_report ref w)) = map fst (reports w)) \<and>
   heap (update_report ref w) = heap w \<and>
   logged (update_report ref w) = logged w \<and>
   threads (update_report ref w) = threads w"
  by (auto simp: update_report_cases update_conv' map_of_map_restrict AList.update_keys
        map_update)

theorem update_report_existing_only_witness:
  "report_id (heap orphan_world ! 0) \<notin> fst ` set (reports orphan_world) \<and>
   update_report 0 orphan_world = orphan_world \<and>
   report_id (heap (on_created example_event example_now (init example_image)) ! 0)
     \<in> fst ` set (reports (on_created example_event example_now (init example_image))) \<and>
   map_of (reports (update_report 0 (on_created example_event example_now (init example_image))))
     ''web01_20240301_090559'' = Some 0"
  using update_report_existing_only [of orphan_world 0]
    update_report_existing_only [of "on_created example_event example_now (init example_image)" 0]
  by (simp add: example_world orphan_world_def report_id_example)

subsection \<open>Reports of a date\<close>

lemma strptime_2024_03_01:
  "strptime_Ymd ''2024-03-01'' = Some \<lparr>year = 2024, month = 3, day = 1\<rparr>"
  by (simp add: strptime_Ymd_def format_regex_def digit_def nonzero_def int_of_str_def
      digit_val_def valid_date_def days_in_month_def)

lemma strptime_not_a_date: "strptime_Ymd ''not-a-date'' = None"
  by (simp add: strptime_Ymd_def format_regex_def digit_def nonzero_def)

lemma truncate_eq_iff:
  "date.truncate t = d \<longleftrightarrow> year t = year d \<and> month t = month d \<and> day t = day d"
  by (cases d) (auto simp: date.truncate_def)

text \<open>
  C8: \<open>get_reports_by_date\<close> parses its argument with \<open>strptime\<close> and the format
  \<open>%Y-%m-%d\<close>.  When that fails it returns the empty list; otherwise it returns exactly the
  stored reports whose timestamp has the parsed year, month and day, whatever its hour,
  minute and second.  \<open>2024-03-01\<close> parses to the first of March 2024, \<open>not-a-date\<close> does
  not parse, and every valid date from the year 1000 on, written as \<open>YYYY-MM-DD\<close>, parses
  to itself.
\<close>

theorem get_reports_by_date_spec:
  "(strptime_Ymd s = None \<longrightarrow> get_reports_by_date s w = []) \<and>
   (\<forall>d. strptime_Ymd s = Some d \<longrightarrow>
      get_reports_by_date s w =
        filter (\<lambda>ref. year (timestamp (deref w ref)) = year d \<and>
                      month (timestamp (deref w ref)) = month d \<and>
                      day (timestamp (deref w ref)) = day d)
          (get_all_reports w)) \<and>
   strptime_Ymd ''2024-03-01'' = Some \<lparr>year = 2024, month = 3, day = 1\<rparr> \<and>
   strptime_Ymd ''not-a-date'' = None \<and>
   (valid_date y m d \<and> 1000 \<le> y \<longrightarrow>
      strptime_Ymd (show_nat y @ ''-'' @ pad2 m @ ''-'' @ pad2 d) =
        Some \<lparr>year = y, month = m, day = d\<rparr>)"
  using strptime_isoformat [of y m d]
  by (auto simp: get_reports_by_date_def get_all_reports_def deref_def truncate_eq_iff
      strptime_2024_03_01 strptime_not_a_date)

theorem get_reports_by_date_spec_witness:
  "get_reports_by_date ''2024-03-01'' date_world = [0, 1] \<and>
   hour (timestamp (deref date_world 0)) = 9 \<and>
   hour (timestamp (deref date_world 1)) = 23 \<and>
   get_all_reports date_world = [0, 1, 2] \<and>
   get_reports_by_date ''not-a-date'' date_world = []"
  using get_reports_by_date_spec [of "''2024-03-01''" date_world 2024 3 1]
    get_reports_by_date_spec [of "''not-a-date''" date_world 2024 3 1]
  by (simp add: date_world_def get_all_reports_def deref_def example_report_def example_now_def)

subsection \<open>The machine name\<close>




subsection \<open>The extension filter of the intake\<close>

text \<open>
  C10: a file-creation event is forwarded to \<open>_process_heap_dump\<close> if and only if it is
  not for a directory and its path, lowercased, ends with \<open>.hprof\<close>, \<open>.dump\<close> or
  \<open>.bin\<close>; every other event leaves the whole state unchanged, so no record is created.
  A forwarded path gets a new report in state \<open>processing\<close>, stored under its id, and a
  background thread.
\<close>

theorem on_created_filter:
  "on_created ev now w =
     (if \<not> is_directory ev \<and>
         (suffix ''.hprof'' (lower (src_path ev)) \<or> suffix ''.dump'' (lower (src_path ev)) \<or>
          suffix ''.bin'' (lower (src_path ev)))
      then handler_process_heap_dump (src_path ev) now w
      else w) \<and>
   heap (handler_process_heap_dump path now w) = heap w @ [initial_report path now] \<and>
   status (initial_report path now) = ''processing'' \<and>
   get_report_by_id (report_id (initial_report path now)) (handler_process_heap_dump path now w) =
     Some (length (heap w)) \<and>
   threads (handler_process_heap_dump path now w) = threads w @ [(length (heap w), Analyzing)]"
  by (simp add: on_created_def accepted_iff handler_process_heap_dump_eq get_report_by_id_def
      update_conv' initial_report_def)

theorem on_created_filter_witness:
  "suffix ''.hprof'' (lower (src_path example_event)) \<and>
   on_created example_event example_now (init example_image) =
     handler_process_heap_dump ''/dump/web01_20240301.HPROF'' example_now (init example_image) \<and>
   heap (on_created example_event example_now (init example_image)) = [example_report] \<and>
   on_created \<lparr>is_directory = False, src_path = ''/dump/notes.txt''\<rparr> example_now
     (init example_image) = init example_image \<and>
   on_created \<lparr>is_directory = True, src_path = ''/dump/old.hprof''\<rparr> example_now
     (init example_image) = init example_image"
proof -
  have a: "suffix ''.hprof'' (lower (src_path example_event))"
    by (simp add: example_event_def lower_example endswith_iff_suffix [symmetric] endswith_def)
  have b: "\<not> suffix ''.hprof'' (lower ''/dump/notes.txt'') \<and>
           \<not> suffix ''.dump'' (lower ''/dump/notes.txt'') \<and>
           \<not> suffix ''.bin'' (lower ''/dump/notes.txt'')"
    by (simp add: endswith_iff_suffix [symmetric] endswith_def lower_def lower_char_def)
  have c: "on_created example_event example_now (init example_image) =
     handler_process_heap_dump ''/dump/web01_20240301.HPROF'' example_now (init example_image)"
    using a on_created_filter [of example_event example_now "init example_image"]
    by (simp add: example_event_def)
  have d: "on_created \<lparr>is_directory = False, src_path = ''/dump/notes.txt''\<rparr> example_now
     (init example_image) = init example_image"
    using b on_created_filter [of "\<lparr>is_directory = False, src_path = ''/dump/notes.txt''\<rparr>"
        example_now "init example_image"]
    by simp
  have e: "on_created \<lparr>is_directory = True, src_path = ''/dump/old.hprof''\<rparr> example_now
     (init example_image) = init example_image"
    using on_created_filter [of "\<lparr>is_directory = True, src_path = ''/dump/old.hprof''\<rparr>"
        example_now "init example_image"]
    by simp
  have f: "heap (on_created example_event example_now (init example_image)) = [example_report]"
    by (simp add: example_world)
  from a c f d e show ?thesis by (intro conjI)
qed

end
